theory Spec2Isabelle
  imports Main
begin

section \<open>Go values shared by all packages\<close>

text \<open>
  Go strings are byte sequences: \<^typ>\<open>string\<close>. A Go \<^verbatim>\<open>error\<close> is a value; \<^verbatim>\<open>nil\<close> is
  \<open>None\<close> of \<^typ>\<open>'a option\<close>. The constructors keep what the code can observe of an
  error: how it was made (\<^verbatim>\<open>errors.New\<close>, \<^verbatim>\<open>fmt.Errorf\<close> with its format and
  arguments), whether it is an \<^verbatim>\<open>*acme.Error\<close> and with which status code, and whether
  \<^verbatim>\<open>os.IsNotExist\<close> holds of it. \<open>ExternalError\<close> is any other error handed back by a
  library or a remote service.
\<close>

datatype error =
    New string
  | FmtErrorf string "arg list"
  | AcmeError nat
  | ErrNotExist
  | ExternalError string
and arg = S string | E error | V "arg list"

text \<open>\<^verbatim>\<open>strings.HasSuffix\<close>, \<^verbatim>\<open>strings.TrimSuffix\<close> and \<^verbatim>\<open>strings.TrimFunc\<close> of the standard library.\<close>

definition HasSuffix :: "string \<Rightarrow> string \<Rightarrow> bool" where
  "HasSuffix s suffix =
     (length s \<ge> length suffix \<and> drop (length s - length suffix) s = suffix)"

definition TrimSuffix :: "string \<Rightarrow> string \<Rightarrow> string" where
  "TrimSuffix s suffix =
     (if HasSuffix s suffix then take (length s - length suffix) s else s)"

definition TrimFunc :: "string \<Rightarrow> (char \<Rightarrow> bool) \<Rightarrow> string" where
  "TrimFunc s f = rev (dropWhile f (rev (dropWhile f s)))"

section \<open>Package godop: the DigitalOcean provisioner\<close>

text \<open>
  The DigitalOcean service is outside the repository. It is a state: the records of each
  domain, the next record id, the outcome each kind of request will have (\<open>None\<close>: the
  request succeeds), and the requests received so far, oldest first.
\<close>

record DomainRecord =
  rec_ID :: int
  rec_Type :: string
  rec_Name :: string
  rec_Data :: string

record DomainRecordEditRequest =
  req_Type :: string
  req_Name :: string
  req_Data :: string

datatype godo_request =
    CreateRecord string DomainRecordEditRequest
  | Records string
  | DeleteRecord string int

record godo =
  domain_records :: "string \<Rightarrow> DomainRecord list"
  next_id :: int
  create_outcome :: "error option"
  list_outcome :: "error option"
  delete_outcome :: "error option"
  requests :: "godo_request list"

definition Domains_CreateRecord ::
  "godo \<Rightarrow> string \<Rightarrow> DomainRecordEditRequest \<Rightarrow> error option \<times> godo" where
  "Domains_CreateRecord api dn rq =
     (let api1 = api\<lparr>requests := requests api @ [CreateRecord dn rq]\<rparr>
      in case create_outcome api of
           Some err \<Rightarrow> (Some err, api1)
         | None \<Rightarrow>
             (None, api1\<lparr>domain_records := (domain_records api)
                       (dn := domain_records api dn @
                          [\<lparr>rec_ID = next_id api, rec_Type = req_Type rq,
                            rec_Name = req_Name rq, rec_Data = req_Data rq\<rparr>]),
                     next_id := next_id api + 1\<rparr>))"

definition Domains_Records :: "godo \<Rightarrow> string \<Rightarrow> (error + DomainRecord list) \<times> godo" where
  "Domains_Records api dn =
     (let api1 = api\<lparr>requests := requests api @ [Records dn]\<rparr>
      in case list_outcome api of
           Some err \<Rightarrow> (Inl err, api1)
         | None \<Rightarrow> (Inr (domain_records api dn), api1))"

definition Domains_DeleteRecord :: "godo \<Rightarrow> string \<Rightarrow> int \<Rightarrow> error option \<times> godo" where
  "Domains_DeleteRecord api dn i =
     (let api1 = api\<lparr>requests := requests api @ [DeleteRecord dn i]\<rparr>
      in case delete_outcome api of
           Some err \<Rightarrow> (Some err, api1)
         | None \<Rightarrow>
             (None, api1\<lparr>domain_records := (domain_records api)
                       (dn := filter (\<lambda>r. rec_ID r \<noteq> i) (domain_records api dn))\<rparr>))"

text \<open>\<^verbatim>\<open>godop.Client\<close>: the wrapped service is the state that is passed along.\<close>

record godop_Client =
  godop_domain :: string

text \<open>
  \<^verbatim>\<open>func (c *Client) Provision(ctxt, typ, name, token string) error\<close> of godop.go.
  Under the suffix check \<^verbatim>\<open>len(name)-len(c.domain)-1\<close> is not negative, so the slice
  expression does not panic and \<^const>\<open>take\<close> is the slice.
\<close>

definition godop_Provision ::
  "godop_Client \<Rightarrow> string \<Rightarrow> string \<Rightarrow> string \<Rightarrow> godo \<Rightarrow> error option \<times> godo" where
  "godop_Provision c typ name token api =
     (if typ \<noteq> ''TXT'' then (Some (New ''only TXT records are supported''), api)
      else if \<not> HasSuffix name (''.'' @ godop_domain c) then (Some (New ''invalid domain''), api)
      else
        let name1 = take (length name - length (godop_domain c) - 1) name
        in if name1 = [] then (Some (New ''invalid name''), api)
           else
             case Domains_CreateRecord api (godop_domain c)
                    \<lparr>req_Type = ''TXT'', req_Name = name1, req_Data = token\<rparr> of
               (Some err, api1) \<Rightarrow> (Some err, api1)
             | (None, api1) \<Rightarrow> (None, api1))"

text \<open>
  The loop of \<^verbatim>\<open>Unprovision\<close> over the listed records: the first record that matches in
  name, type and data is deleted by its id, and the function returns at once, with the
  outcome of that request.
\<close>

fun godop_delete_first ::
  "godop_Client \<Rightarrow> string \<Rightarrow> string \<Rightarrow> DomainRecord list \<Rightarrow> godo \<Rightarrow> error option \<times> godo" where
  "godop_delete_first c name token [] api = (Some (New ''record not deleted''), api)"
| "godop_delete_first c name token (record # records) api =
     (if rec_Name record \<noteq> name \<or> rec_Type record \<noteq> ''TXT'' \<or> rec_Data record \<noteq> token
      then godop_delete_first c name token records api
      else
        case Domains_DeleteRecord api (godop_domain c) (rec_ID record) of
          (Some err, api1) \<Rightarrow> (Some err, api1)
        | (None, api1) \<Rightarrow> (None, api1))"

definition godop_Unprovision ::
  "godop_Client \<Rightarrow> string \<Rightarrow> string \<Rightarrow> string \<Rightarrow> godo \<Rightarrow> error option \<times> godo" where
  "godop_Unprovision c typ name token api =
     (if typ \<noteq> ''TXT'' then (Some (New ''only TXT records are supported''), api)
      else if \<not> HasSuffix name (''.'' @ godop_domain c) then (Some (New ''invalid domain''), api)
      else
        let name1 = take (length name - length (godop_domain c) - 1) name
        in if name1 = [] then (Some (New ''invalid name''), api)
           else
             case Domains_Records api (godop_domain c) of
               (Inl err, api1) \<Rightarrow> (Some err, api1)
             | (Inr records, api1) \<Rightarrow> godop_delete_first c name1 token records api1)"

section \<open>Package gcdnsp: the Google Cloud DNS provisioner\<close>

text \<open>
  The Cloud DNS service holds resource record sets per project and managed zone. A change
  removes its deletions and appends its additions. The log lines the client writes through
  its \<^verbatim>\<open>logf\<close> and \<^verbatim>\<open>errf\<close> callbacks are kept in the same state, in order. The aggregate
  result of the propagation check (\<^verbatim>\<open>eg.Wait()\<close> over one goroutine per nameserver) is an
  outcome of the environment: the goroutines, their timing and their cancellation are not
  part of this sequential model. \<^verbatim>\<open>time.Sleep\<close> changes no state and is left out.
\<close>

record ResourceRecordSet =
  rr_Type :: string
  rr_Name :: string
  rr_Rrdatas :: "string list"
  rr_Ttl :: int

record Change =
  Additions :: "ResourceRecordSet list"
  Deletions :: "ResourceRecordSet list"

datatype dns_request =
    ChangesCreate string string Change
  | RrsetsList string string
  | Exchange "string list" string

datatype log_line = Logf string "arg list" | Errf string "arg list"

record clouddns =
  rrsets :: "string \<Rightarrow> string \<Rightarrow> ResourceRecordSet list"
  change_outcome :: "error option"
  pages_outcome :: "error option"
  propagation_outcome :: "error option"
  dns_requests :: "dns_request list"
  log_lines :: "log_line list"

definition Changes_Create ::
  "clouddns \<Rightarrow> string \<Rightarrow> string \<Rightarrow> Change \<Rightarrow> error option \<times> clouddns" where
  "Changes_Create svc project zone change =
     (let svc1 = svc\<lparr>dns_requests := dns_requests svc @ [ChangesCreate project zone change]\<rparr>
      in case change_outcome svc of
           Some err \<Rightarrow> (Some err, svc1)
         | None \<Rightarrow>
             (None, svc1\<lparr>rrsets := (rrsets svc)
                       (project := (rrsets svc project)
                          (zone := filter (\<lambda>r. r \<notin> set (Deletions change)) (rrsets svc project zone)
                                   @ Additions change))\<rparr>))"

definition Rrsets_List_Pages ::
  "clouddns \<Rightarrow> string \<Rightarrow> string \<Rightarrow> (error + ResourceRecordSet list) \<times> clouddns" where
  "Rrsets_List_Pages svc project zone =
     (let svc1 = svc\<lparr>dns_requests := dns_requests svc @ [RrsetsList project zone]\<rparr>
      in case pages_outcome svc of
           Some err \<Rightarrow> (Inl err, svc1)
         | None \<Rightarrow> (Inr (rrsets svc project zone), svc1))"

definition eg_Wait :: "clouddns \<Rightarrow> string list \<Rightarrow> string \<Rightarrow> error option \<times> clouddns" where
  "eg_Wait svc nameservers name =
     (propagation_outcome svc,
      svc\<lparr>dns_requests := dns_requests svc @ [Exchange nameservers name]\<rparr>)"

definition c_logf :: "string \<Rightarrow> arg list \<Rightarrow> clouddns \<Rightarrow> clouddns" where
  "c_logf s v svc = svc\<lparr>log_lines := log_lines svc @ [Logf s v]\<rparr>"

definition c_errf :: "string \<Rightarrow> arg list \<Rightarrow> clouddns \<Rightarrow> clouddns" where
  "c_errf s v svc = svc\<lparr>log_lines := log_lines svc @ [Errf s v]\<rparr>"

record gcdnsp_Client =
  projectID :: string
  managedZone :: string
  gcdnsp_domain :: string
  nameservers :: "string list"
  propagationWait :: int
  checkDelay :: int
  provisionDelay :: int

definition allowedRecordType :: string where
  "allowedRecordType = ''TXT''"

text \<open>\<^verbatim>\<open>contains\<close>: true if haystack contains needle, each entry stripped of double quotes.\<close>

fun contains :: "string list \<Rightarrow> string \<Rightarrow> bool" where
  "contains [] needle = False"
| "contains (s # haystack) needle =
     (if needle = TrimFunc s (\<lambda>r. r = CHR 0x22) then True else contains haystack needle)"

text \<open>
  \<^verbatim>\<open>func (c *Client) Provision\<close> of gcdnsp. The trimmed name \<open>n\<close> is only compared with
  the empty string; the record set is created under \<^verbatim>\<open>name + "."\<close>.
\<close>

definition gcdnsp_Provision ::
  "gcdnsp_Client \<Rightarrow> string \<Rightarrow> string \<Rightarrow> string \<Rightarrow> clouddns \<Rightarrow> error option \<times> clouddns" where
  "gcdnsp_Provision c typ name token svc =
     (if typ \<noteq> allowedRecordType then (Some (New ''only TXT records are supported''), svc)
      else if \<not> HasSuffix name (''.'' @ gcdnsp_domain c) then (Some (New ''invalid domain''), svc)
      else if TrimSuffix name (''.'' @ gcdnsp_domain c) = []
        then (Some (New ''invalid name''), svc)
      else
        let name1 = name @ ''.'';
            svc1 = c_logf ''provisioning (type: %s, name: %s, token: %s)''
                     [S typ, S name1, S token] svc
        in case Changes_Create svc1 (projectID c) (managedZone c)
                  \<lparr>Additions = [\<lparr>rr_Type = typ, rr_Name = name1,
                                  rr_Rrdatas = [token], rr_Ttl = 1\<rparr>],
                   Deletions = []\<rparr> of
             (Some err, svc2) \<Rightarrow>
               (Some err,
                c_errf ''unable to provision (type: %s, name: %s, token: %s): %v''
                  [S typ, S name1, S token, E err] svc2)
           | (None, svc2) \<Rightarrow>
               (case eg_Wait svc2 (nameservers c) name1 of
                  (Some err, svc3) \<Rightarrow> (Some err, svc3)
                | (None, svc3) \<Rightarrow> (None, svc3)))"

text \<open>
  \<^verbatim>\<open>func (c *Client) Unprovision\<close> of gcdnsp. The callback given to \<^verbatim>\<open>req.Pages\<close> appends
  every listed set that matches; with no match the client reports through \<^verbatim>\<open>errf\<close> and
  returns \<^verbatim>\<open>nil\<close>.
\<close>

definition gcdnsp_Unprovision ::
  "gcdnsp_Client \<Rightarrow> string \<Rightarrow> string \<Rightarrow> string \<Rightarrow> clouddns \<Rightarrow> error option \<times> clouddns" where
  "gcdnsp_Unprovision c typ name token svc =
     (if typ \<noteq> allowedRecordType then (Some (New ''only TXT records are supported''), svc)
      else if \<not> HasSuffix name (''.'' @ gcdnsp_domain c) then (Some (New ''invalid domain''), svc)
      else if TrimSuffix name (''.'' @ gcdnsp_domain c) = []
        then (Some (New ''invalid name''), svc)
      else
        let name1 = name @ ''.''
        in case Rrsets_List_Pages svc (projectID c) (managedZone c) of
             (Inl err, svc1) \<Rightarrow>
               (Some err,
                c_errf ''could not retrieve records (type: %s, name: %s, token: %s): %v''
                  [S typ, S name1, S token, E err] svc1)
           | (Inr page, svc1) \<Rightarrow>
               let deletions =
                     filter (\<lambda>rrSet. \<not> (rr_Name rrSet \<noteq> name1 \<or> rr_Type rrSet \<noteq> allowedRecordType
                                         \<or> \<not> contains (rr_Rrdatas rrSet) token)) page
               in if length deletions < 1
                  then (None,
                        c_errf ''could not find record (type: %s, name: %s, token: %s)''
                          [S typ, S name1, S token] svc1)
                  else
                    let svc2 = c_logf ''unprovisioning (type: %s, name: %s, token: %s)''
                                 [S typ, S name1, S token] svc1
                    in case Changes_Create svc2 (projectID c) (managedZone c)
                              \<lparr>Additions = [], Deletions = deletions\<rparr> of
                         (Some err, svc3) \<Rightarrow>
                           (Some err,
                            c_errf ''unable to unprovision (type: %s, name: %s, token: %s): %v''
                              [S typ, S name1, S token, E err] svc3)
                       | (None, svc3) \<Rightarrow> (None, svc3))"

section \<open>Package autocertdns: the Manager\<close>

text \<open>
  Private keys are opaque. A \<^verbatim>\<open>pemutil.Store\<close> is read through \<^verbatim>\<open>ECPrivateKey()\<close> only,
  whose second result is \<^verbatim>\<open>false\<close> when the store holds no such key. Times are
  nanoseconds since the Unix epoch and a \<^verbatim>\<open>time.Duration\<close> is a count of nanoseconds.
\<close>

datatype PrivateKey = PrivateKey nat

record Store =
  ECPrivateKey :: "PrivateKey option"

record tls_Certificate =
  Certificate :: "string list"
  Leaf_NotAfter :: int

record Challenge =
  chal_Type :: string
  chal_URI :: string
  chal_Token :: string

record Authorization =
  authz_URI :: string
  authz_Status :: string
  authz_Challenges :: "Challenge list"

record acme_Client =
  Key :: PrivateKey
  client_DirectoryURL :: string

text \<open>
  The \<^verbatim>\<open>Provisioner\<close> interface as the Manager sees it: each method is called with three
  strings and hands back an error or \<^verbatim>\<open>nil\<close>.
\<close>

record Provisioner =
  Provision :: "string \<Rightarrow> string \<Rightarrow> string \<Rightarrow> error option"
  Unprovision :: "string \<Rightarrow> string \<Rightarrow> string \<Rightarrow> error option"

text \<open>
  \<^verbatim>\<open>type Manager struct\<close>. A \<^verbatim>\<open>nil\<close> func or interface field is \<open>None\<close>; of the two
  logging callbacks only whether they are set matters, their calls are events.
\<close>

record Manager =
  DirectoryURL :: string
  Prompt :: "(string \<Rightarrow> bool) option"
  CacheDir :: string
  Email :: string
  Domain :: string
  RenewBefore :: int
  Provisioner :: "Provisioner option"
  Logf_set :: bool
  Errorf_set :: bool
  cert :: "tls_Certificate option"
  nextExpiry :: int

definition acmeKeyFile :: string where
  "acmeKeyFile = ''acme_account.key''"

definition acmeChallengDomainPrefix :: string where
  "acmeChallengDomainPrefix = ''_acme-challenge.''"

definition keySuffix :: string where
  "keySuffix = ''.key''"

definition certSuffix :: string where
  "certSuffix = ''.crt''"

definition StatusValid :: string where
  "StatusValid = ''valid''"

definition StatusConflict :: nat where
  "StatusConflict = 409"

text \<open>
  Everything \<^verbatim>\<open>renew\<close> does outside the Manager is an event, recorded in order: the lock,
  the logging callbacks, the file system, the ACME client, the X.509 library and the
  provisioner.
\<close>

datatype event =
    RW_Lock | RW_Unlock | RW_RLock | RW_RUnlock
  | CB_Logf string "arg list"
  | CB_Errorf string "arg list"
  | FS_LoadFile string
  | FS_GenerateECKeySet
  | FS_MkdirAll string
  | FS_Bytes
  | FS_WriteFile string
  | ACME_Register acme_Client "string list"
  | ACME_Authorize acme_Client string
  | ACME_DNS01ChallengeRecord acme_Client string
  | ACME_Accept acme_Client Challenge
  | ACME_WaitAuthorization acme_Client string
  | X509_CreateCertificateRequest string PrivateKey
  | ACME_CreateCert acme_Client string
  | DNS_Provision string string string
  | DNS_Unprovision string string string

text \<open>
  A file on disk either parses as a PEM store or cannot be loaded, with the error the
  load gives. An absent path gives an error of which \<^verbatim>\<open>os.IsNotExist\<close> holds.
\<close>

datatype disk_file = Pem Store | Unloadable error

record world =
  disk :: "string \<Rightarrow> disk_file option"
  generated :: nat
  trace :: "event list"

text \<open>
  What the libraries and the remote services answer is a parameter: path joining, key
  generation (by the number of keys generated before), directory creation and file
  writing, the ACME client's calls and the signing request.
\<close>

record env =
  filepath_Join :: "string \<Rightarrow> string \<Rightarrow> string"
  pemutil_GenerateECKeySet :: "nat \<Rightarrow> error + Store"
  os_MkdirAll :: "string \<Rightarrow> error option"
  os_WriteFile :: "string \<Rightarrow> error option"
  store_Bytes :: "Store \<Rightarrow> error option"
  LetsEncryptURL :: string
  client_Register :: "acme_Client \<Rightarrow> string list \<Rightarrow> (string \<Rightarrow> bool) \<Rightarrow> error option"
  client_Authorize :: "acme_Client \<Rightarrow> string \<Rightarrow> error + Authorization"
  client_DNS01ChallengeRecord :: "acme_Client \<Rightarrow> string \<Rightarrow> error + string"
  client_Accept :: "acme_Client \<Rightarrow> Challenge \<Rightarrow> error option"
  client_WaitAuthorization :: "acme_Client \<Rightarrow> string \<Rightarrow> error + Authorization"
  x509_CreateCertificateRequest :: "string \<Rightarrow> PrivateKey \<Rightarrow> error + string"
  client_CreateCert :: "acme_Client \<Rightarrow> string \<Rightarrow> error + (string list \<times> string)"

definition emit :: "event \<Rightarrow> world \<Rightarrow> world" where
  "emit ev w = w\<lparr>trace := trace w @ [ev]\<rparr>"

definition LoadFile :: "world \<Rightarrow> string \<Rightarrow> error + Store" where
  "LoadFile w path =
     (case disk w path of
        None \<Rightarrow> Inl ErrNotExist
      | Some (Unloadable err) \<Rightarrow> Inl err
      | Some (Pem store) \<Rightarrow> Inr store)"

definition IsNotExist :: "error \<Rightarrow> bool" where
  "IsNotExist err = (err = ErrNotExist)"

text \<open>\<^verbatim>\<open>func (m *Manager) log\<close> and \<^verbatim>\<open>func (m *Manager) errf\<close>.\<close>

definition m_log :: "Manager \<Rightarrow> string \<Rightarrow> arg list \<Rightarrow> world \<Rightarrow> world" where
  "m_log m s v w = (if Logf_set m then emit (CB_Logf s v) w else w)"

definition m_errf :: "Manager \<Rightarrow> string \<Rightarrow> arg list \<Rightarrow> world \<Rightarrow> error \<times> world" where
  "m_errf m s v w =
     (let err = FmtErrorf s v
      in if \<not> Errorf_set m then (err, m_log m ''ERROR: %v'' [E err] w)
         else (err, emit (CB_Errorf s [V v]) w))"

text \<open>The statement \<^verbatim>\<open>return m.errf(...)\<close>.\<close>

definition return_errf :: "Manager \<Rightarrow> string \<Rightarrow> arg list \<Rightarrow> world \<Rightarrow> error option \<times> world" where
  "return_errf m s v w = (case m_errf m s v w of (err, w1) \<Rightarrow> (Some err, w1))"

text \<open>
  \<^verbatim>\<open>func (m *Manager) cachedKey(filename string)\<close> of autocertdns.go: the key is loaded
  from the cache directory, or generated and written there when the file does not exist.
\<close>

definition cachedKey ::
  "env \<Rightarrow> Manager \<Rightarrow> string \<Rightarrow> world \<Rightarrow> (error + PrivateKey) \<times> world" where
  "cachedKey e m filename w0 =
     (let keyfile = filepath_Join e (CacheDir m) filename;
          grab = (\<lambda>store w.
            case ECPrivateKey store of
              None \<Rightarrow> (Inl (FmtErrorf ''%s does not contain ec private key'' [S keyfile]), w)
            | Some key \<Rightarrow> (Inr key, w));
          w1 = emit (FS_LoadFile keyfile) w0
      in case LoadFile w1 keyfile of
           Inl err \<Rightarrow>
             if IsNotExist err then
               let w2 = emit FS_GenerateECKeySet (w1\<lparr>generated := generated w1 + 1\<rparr>)
               in case pemutil_GenerateECKeySet e (generated w1) of
                    Inl err \<Rightarrow> (Inl (FmtErrorf ''could not generate ec key set: %v'' [E err]), w2)
                  | Inr store \<Rightarrow>
                      let w3 = emit (FS_MkdirAll (CacheDir m)) w2
                      in case os_MkdirAll e (CacheDir m) of
                           Some err \<Rightarrow>
                             (Inl (FmtErrorf ''could not create cache directory: %v'' [E err]), w3)
                         | None \<Rightarrow>
                             let w4 = emit (FS_WriteFile keyfile) w3
                             in case os_WriteFile e keyfile of
                                  Some err \<Rightarrow>
                                    (Inl (FmtErrorf ''could not save PEM: %v'' [E err]), w4)
                                | None \<Rightarrow>
                                    grab store (w4\<lparr>disk := (disk w4)(keyfile \<mapsto> Pem store)\<rparr>)
             else (Inl (FmtErrorf ''unexpected error: %v'' [E err]), w1)
         | Inr store \<Rightarrow> grab store w1)"

text \<open>
  \<^verbatim>\<open>func (m *Manager) cachedAccountPEM()\<close> of the earlier revision of the file
  (src/unnamed/part_000): the path is a plain concatenation and every error goes through
  \<^verbatim>\<open>m.errf\<close>.
\<close>

definition cachedAccountPEM :: "env \<Rightarrow> Manager \<Rightarrow> world \<Rightarrow> (error + Store) \<times> world" where
  "cachedAccountPEM e m w0 =
     (let keyfilePath = CacheDir m @ ''/'' @ acmeKeyFile;
          failed = (\<lambda>s v w. case m_errf m s v w of (err, w1) \<Rightarrow> (Inl err, w1));
          w1 = emit (FS_LoadFile keyfilePath) w0
      in case LoadFile w1 keyfilePath of
           Inl err \<Rightarrow>
             if IsNotExist err then
               let w2 = emit FS_GenerateECKeySet (w1\<lparr>generated := generated w1 + 1\<rparr>)
               in case pemutil_GenerateECKeySet e (generated w1) of
                    Inl err \<Rightarrow> failed ''could not generate ec key set: %v'' [E err] w2
                  | Inr store \<Rightarrow>
                      let w3 = emit (FS_MkdirAll (CacheDir m)) w2
                      in case os_MkdirAll e (CacheDir m) of
                           Some err \<Rightarrow> failed ''could not create cache directory: %v'' [E err] w3
                         | None \<Rightarrow>
                             let w4 = emit FS_Bytes w3
                             in case store_Bytes e store of
                                  Some err \<Rightarrow> failed ''could not generate PEM: %v'' [E err] w4
                                | None \<Rightarrow>
                                    let w5 = emit (FS_WriteFile keyfilePath) w4
                                    in case os_WriteFile e keyfilePath of
                                         Some err \<Rightarrow> failed ''could not save PEM: %v'' [E err] w5
                                       | None \<Rightarrow>
                                           (Inr store,
                                            w5\<lparr>disk := (disk w5)(keyfilePath \<mapsto> Pem store)\<rparr>)
             else failed ''unexpected error encountered: %v'' [E err] w1
         | Inr store \<Rightarrow> (Inr store, w1))"

text \<open>
  The test \<^verbatim>\<open>err == nil || ok && ae.StatusCode == http.StatusConflict\<close> on the result of
  \<^verbatim>\<open>client.Register\<close>.
\<close>

definition already_registered :: "error option \<Rightarrow> bool" where
  "already_registered err =
     (case err of
        None \<Rightarrow> True
      | Some (AcmeError code) \<Rightarrow> code = StatusConflict
      | Some _ \<Rightarrow> False)"

text \<open>
  \<^verbatim>\<open>func (m *Manager) renew(ctxt context.Context) error\<close>. The function is one long
  sequence of steps, each returning early on an error; it is written here as consecutive
  blocks of its lines, every block ending in the call of the next one. Two revisions of the
  file are in the repository, autocertdns.go and src/unnamed/part_000. They differ in how the
  account key is loaded and in the key given to the signing request; the lines from the
  creation of the client to the check of the authorization status are the same, so these
  blocks take what follows them (\<open>issue\<close>) as an argument.

  A deferred call runs when the function returns, after the returned value is computed and
  in reverse order of the \<^verbatim>\<open>defer\<close> statements: it is a function applied to the result of
  all that follows the statement. The arguments of the deferred \<^verbatim>\<open>Unprovision\<close> are
  evaluated at the \<^verbatim>\<open>defer\<close> statement and its result is dropped. No line assigns to a field
  of the Manager, so the Manager is handed back as it was received.
\<close>

text \<open>autocertdns.go, from \<^verbatim>\<open>// grab domain key\<close> to \<^verbatim>\<open>return nil\<close>.\<close>

definition renew_issue :: "env \<Rightarrow> Manager \<Rightarrow> acme_Client \<Rightarrow> world \<Rightarrow> error option \<times> world" where
  "renew_issue e m client w8 =
     (case cachedKey e m (Domain m @ keySuffix) w8 of
        (Inl err, w9) \<Rightarrow> return_errf m ''could not load domain key: %v'' [E err] w9
      | (Inr certKey, w9) \<Rightarrow>
          let w10 = emit (X509_CreateCertificateRequest (Domain m) certKey) w9
          in case x509_CreateCertificateRequest e (Domain m) certKey of
               Inl err \<Rightarrow>
                 return_errf m ''could not create certificate signing request: %v'' [E err] w10
             | Inr csr \<Rightarrow>
                 let w11 = emit (ACME_CreateCert client csr) w10
                 in case client_CreateCert e client csr of
                      Inl err \<Rightarrow> return_errf m ''could not create certificate: %v'' [E err] w11
                    | Inr (der, urlstr) \<Rightarrow>
                        (None, m_log m ''created certificate: %s'' [S urlstr] w11))"

text \<open>
  src/unnamed/part_000, from \<^verbatim>\<open>// create certificate signing request\<close> to
  \<^verbatim>\<open>return nil\<close>: the request is made with \<^verbatim>\<open>key\<close>, the account key.
\<close>

definition renew_issue_part_000 ::
  "env \<Rightarrow> Manager \<Rightarrow> PrivateKey \<Rightarrow> acme_Client \<Rightarrow> world \<Rightarrow> error option \<times> world" where
  "renew_issue_part_000 e m key client w8 =
     (let w10 = emit (X509_CreateCertificateRequest (Domain m) key) w8
      in case x509_CreateCertificateRequest e (Domain m) key of
           Inl err \<Rightarrow>
             return_errf m ''could not create certificate signing request: %v'' [E err] w10
         | Inr csr \<Rightarrow>
             let w11 = emit (ACME_CreateCert client csr) w10
             in case client_CreateCert e client csr of
                  Inl err \<Rightarrow> return_errf m ''could not create certificate: %v'' [E err] w11
                | Inr (der, urlstr) \<Rightarrow>
                    (None, m_log m ''created certificate: %s'' [S urlstr] w11))"

text \<open>
  Both revisions, from \<^verbatim>\<open>// provision TXT under _acme-challenge.<domain>\<close> to the check of
  \<^verbatim>\<open>authz.Status\<close>.
\<close>

definition renew_challenge ::
  "env \<Rightarrow> Manager \<Rightarrow> Provisioner \<Rightarrow> acme_Client \<Rightarrow> Authorization \<Rightarrow> Challenge \<Rightarrow> string \<Rightarrow>
   (acme_Client \<Rightarrow> world \<Rightarrow> error option \<times> world) \<Rightarrow> world \<Rightarrow> error option \<times> world" where
  "renew_challenge e m provisioner client authz challenge tok issue w5 =
     (let w6 = emit (DNS_Provision ''TXT'' (acmeChallengDomainPrefix @ Domain m) tok) w5
      in case Provision provisioner ''TXT'' (acmeChallengDomainPrefix @ Domain m) tok of
           Some err \<Rightarrow>
             return_errf m ''could not provision dns-01 TXT challenge: %v'' [E err] w6
         | None \<Rightarrow>
             let deferred_Unprovision = (\<lambda>(err, w).
                   (err, emit (DNS_Unprovision ''TXT'' (acmeChallengDomainPrefix @ Domain m) tok) w))
             in deferred_Unprovision
                  (let w7 = emit (ACME_Accept client challenge) w6
                   in case client_Accept e client challenge of
                        Some err \<Rightarrow>
                          return_errf m ''could not accept ACME challenge: %v'' [E err] w7
                      | None \<Rightarrow>
                          let w8 = emit (ACME_WaitAuthorization client (authz_URI authz)) w7
                          in case client_WaitAuthorization e client (authz_URI authz) of
                               Inl err \<Rightarrow>
                                 return_errf m
                                   ''unable to wait for authorization from ACME server: %v''
                                   [E err] w8
                             | Inr authz1 \<Rightarrow>
                                 if authz_Status authz1 \<noteq> StatusValid
                                 then return_errf m
                                        ''dns-01 challenge is invalid (has status %v)''
                                        [S (authz_Status authz1)] w8
                                 else issue client w8))"

text \<open>
  Both revisions, from \<^verbatim>\<open>// create authorize challenges\<close> to \<^verbatim>\<open>// exchange dns challenge\<close>.
  The loop takes the first offered challenge of type \<^verbatim>\<open>dns-01\<close>.
\<close>

definition renew_authorize ::
  "env \<Rightarrow> Manager \<Rightarrow> Provisioner \<Rightarrow> acme_Client \<Rightarrow>
   (acme_Client \<Rightarrow> world \<Rightarrow> error option \<times> world) \<Rightarrow> world \<Rightarrow> error option \<times> world" where
  "renew_authorize e m provisioner client issue w3 =
     (let w4 = emit (ACME_Authorize client (Domain m)) w3
      in case client_Authorize e client (Domain m) of
           Inl err \<Rightarrow> return_errf m ''could not authorize with ACME server: %v'' [E err] w4
         | Inr authz \<Rightarrow>
             (case find (\<lambda>c. chal_Type c = ''dns-01'') (authz_Challenges authz) of
                None \<Rightarrow>
                  return_errf m
                    ''no dns-01 challenge found in challenges provided by the ACME server'' [] w4
              | Some challenge \<Rightarrow>
                  let w5 = emit (ACME_DNS01ChallengeRecord client (chal_Token challenge)) w4
                  in case client_DNS01ChallengeRecord e client (chal_Token challenge) of
                       Inl err \<Rightarrow>
                         return_errf m ''could not generate token for ACME challenge: %v''
                           [E err] w5
                     | Inr tok \<Rightarrow>
                         renew_challenge e m provisioner client authz challenge tok issue w5))"

text \<open>Both revisions, from \<^verbatim>\<open>// create acme client\<close> to the check of the registration.\<close>

definition renew_register ::
  "env \<Rightarrow> Manager \<Rightarrow> (string \<Rightarrow> bool) \<Rightarrow> Provisioner \<Rightarrow> PrivateKey \<Rightarrow>
   (acme_Client \<Rightarrow> world \<Rightarrow> error option \<times> world) \<Rightarrow> world \<Rightarrow> error option \<times> world" where
  "renew_register e m prompt provisioner key issue w2 =
     (let directoryURL = (if DirectoryURL m = [] then LetsEncryptURL e else DirectoryURL m);
          client = \<lparr>Key = key, client_DirectoryURL = directoryURL\<rparr>;
          contact = [''mailto:'' @ Email m];
          w3 = emit (ACME_Register client contact) w2
      in case client_Register e client contact prompt of
           None \<Rightarrow> renew_authorize e m provisioner client issue w3
         | Some err \<Rightarrow>
             if already_registered (Some err)
             then renew_authorize e m provisioner client issue w3
             else return_errf m ''could not register with ACME server: %v'' [E err] w3)"

text \<open>autocertdns.go: the lock, the three configuration checks and the account key.\<close>

definition renew :: "env \<Rightarrow> Manager \<Rightarrow> world \<Rightarrow> error option \<times> Manager \<times> world" where
  "renew e m w0 =
     (let deferred_Unlock = (\<lambda>(err, w). (err, m, emit RW_Unlock w));
          w1 = emit RW_Lock w0
      in deferred_Unlock
           (if Email m = [] then return_errf m ''must provide Email'' [] w1
            else case Prompt m of
              None \<Rightarrow> return_errf m ''must provide Prompt'' [] w1
            | Some prompt \<Rightarrow>
                (case Provisioner m of
                   None \<Rightarrow> return_errf m ''must provide Provisioner'' [] w1
                 | Some provisioner \<Rightarrow>
                     (case cachedKey e m acmeKeyFile w1 of
                        (Inl err, w2) \<Rightarrow>
                          return_errf m ''could not load %s: %v'' [S acmeKeyFile, E err] w2
                      | (Inr key, w2) \<Rightarrow>
                          renew_register e m prompt provisioner key (renew_issue e m) w2))))"

text \<open>
  src/unnamed/part_000: the lock, the three configuration checks, the account store and the
  key in it. An error of \<^verbatim>\<open>cachedAccountPEM\<close> is returned as it is.
\<close>

definition renew_part_000 :: "env \<Rightarrow> Manager \<Rightarrow> world \<Rightarrow> error option \<times> Manager \<times> world" where
  "renew_part_000 e m w0 =
     (let deferred_Unlock = (\<lambda>(err, w). (err, m, emit RW_Unlock w));
          w1 = emit RW_Lock w0
      in deferred_Unlock
           (if Email m = [] then return_errf m ''must provide Email'' [] w1
            else case Prompt m of
              None \<Rightarrow> return_errf m ''must provide Prompt'' [] w1
            | Some prompt \<Rightarrow>
                (case Provisioner m of
                   None \<Rightarrow> return_errf m ''must provide Provisioner'' [] w1
                 | Some provisioner \<Rightarrow>
                     (case cachedAccountPEM e m w1 of
                        (Inl err, w2) \<Rightarrow> (Some err, w2)
                      | (Inr store, w2) \<Rightarrow>
                          (case ECPrivateKey store of
                             None \<Rightarrow> return_errf m ''expected ec private key'' [] w2
                           | Some key \<Rightarrow>
                               renew_register e m prompt provisioner key
                                 (renew_issue_part_000 e m key) w2)))))"

text \<open>
  Time. \<^verbatim>\<open>t.Sub(u)\<close> is the difference as a \<^verbatim>\<open>Duration\<close>, an \<^verbatim>\<open>int64\<close>, and stops at the
  largest and smallest duration. The channel of \<^verbatim>\<open>time.After(d)\<close> delivers once \<open>d\<close> has
  elapsed, at once when \<open>d\<close> is zero or negative: \<open>time_After d\<close> is the delay until it
  does. \<^verbatim>\<open>time.Time{}\<close> is the first instant of year 1.
\<close>

definition minDuration :: int where
  "minDuration = - (2 ^ 63)"

definition maxDuration :: int where
  "maxDuration = 2 ^ 63 - 1"

definition Sub :: "int \<Rightarrow> int \<Rightarrow> int" where
  "Sub t u =
     (let d = t - u
      in if d < minDuration then minDuration else if maxDuration < d then maxDuration else d)"

definition time_After :: "int \<Rightarrow> int" where
  "time_After d = (if d \<le> 0 then 0 else d)"

definition Nanosecond :: int where "Nanosecond = 1"
definition Second :: int where "Second = 1000000000 * Nanosecond"
definition Hour :: int where "Hour = 3600 * Second"
definition Day :: int where "Day = 24 * Hour"

definition zeroTime :: int where
  "zeroTime = - 62135596800 * Second"

text \<open>
  \<^verbatim>\<open>func (m *Manager) afterRenew() <-chan time.Time\<close>, the same in both revisions; \<open>now\<close>
  is what \<^verbatim>\<open>time.Now()\<close> gives. The result is the delay after which the channel delivers.
\<close>

definition afterRenew :: "Manager \<Rightarrow> int \<Rightarrow> world \<Rightarrow> int \<times> world" where
  "afterRenew m now w0 =
     (let w1 = emit RW_RLock w0;
          exp0 = nextExpiry m;
          w2 = emit RW_RUnlock w1
      in (time_After (Sub exp0 now), w2))"

text \<open>
  \<^verbatim>\<open>func (m *Manager) GetCertificate(hello *tls.ClientHelloInfo)\<close>, the same in both
  revisions: the certificate slot and a \<^verbatim>\<open>nil\<close> error.
\<close>

record ClientHelloInfo =
  ServerName :: string

definition GetCertificate ::
  "Manager \<Rightarrow> ClientHelloInfo \<Rightarrow> world \<Rightarrow> (tls_Certificate option \<times> error option) \<times> world" where
  "GetCertificate m hello w0 =
     (let deferred_RUnlock = (\<lambda>(r, w). (r, emit RW_RUnlock w));
          w1 = emit RW_RLock w0
      in deferred_RUnlock ((cert m, None), w1))"

text \<open>
  Views of a trace: the calls of the provisioner together with the ACME Accept call, and
  the events that are neither the lock nor a logging callback.
\<close>

fun is_dns_or_accept :: "event \<Rightarrow> bool" where
  "is_dns_or_accept (DNS_Provision typ name tok) = True"
| "is_dns_or_accept (DNS_Unprovision typ name tok) = True"
| "is_dns_or_accept (ACME_Accept client challenge) = True"
| "is_dns_or_accept ev = False"

fun is_lock_or_log :: "event \<Rightarrow> bool" where
  "is_lock_or_log RW_Lock = True"
| "is_lock_or_log RW_Unlock = True"
| "is_lock_or_log RW_RLock = True"
| "is_lock_or_log RW_RUnlock = True"
| "is_lock_or_log (CB_Logf s v) = True"
| "is_lock_or_log (CB_Errorf s v) = True"
| "is_lock_or_log ev = False"

fun is_fs :: "event \<Rightarrow> bool" where
  "is_fs (FS_LoadFile path) = True"
| "is_fs FS_GenerateECKeySet = True"
| "is_fs (FS_MkdirAll path) = True"
| "is_fs FS_Bytes = True"
| "is_fs (FS_WriteFile path) = True"
| "is_fs ev = False"

fun is_issue_event :: "event \<Rightarrow> bool" where
  "is_issue_event (X509_CreateCertificateRequest name key) = True"
| "is_issue_event (ACME_CreateCert client csr) = True"
| "is_issue_event ev = is_fs ev"

text \<open>
  What the blocks of \<^verbatim>\<open>renew\<close> between the creation of the client and the check of the
  authorization status can do, seen from the world \<open>w\<close> they start in. Either they return
  an error before the issuing block, with the disk untouched, no valid authorization seen,
  and with one of three views on the
  provisioner: nothing was called, Provision was called and failed, or Provision succeeded and
  was followed by Accept and one Unprovision of the same record. Or Provision succeeded,
  Accept was called, the issuing block ran, and Unprovision was called after it.
\<close>

definition provisioning_view :: "Manager \<Rightarrow> Provisioner \<Rightarrow> event list \<Rightarrow> bool" where
  "provisioning_view m p view \<longleftrightarrow>
     view = []
   \<or> (\<exists>tok. Provision p ''TXT'' (acmeChallengDomainPrefix @ Domain m) tok \<noteq> None
          \<and> view = [DNS_Provision ''TXT'' (acmeChallengDomainPrefix @ Domain m) tok])
   \<or> (\<exists>tok client challenge.
          Provision p ''TXT'' (acmeChallengDomainPrefix @ Domain m) tok = None
          \<and> view = [DNS_Provision ''TXT'' (acmeChallengDomainPrefix @ Domain m) tok,
               ACME_Accept client challenge,
               DNS_Unprovision ''TXT'' (acmeChallengDomainPrefix @ Domain m) tok])"

text \<open>
  Two more views: the signing requests, and the calls of WaitAuthorization to which the
  authority answers with an authorization of status valid.
\<close>

fun is_csr :: "event \<Rightarrow> bool" where
  "is_csr (X509_CreateCertificateRequest name key) = True"
| "is_csr ev = False"

fun valid_wait :: "env \<Rightarrow> event \<Rightarrow> bool" where
  "valid_wait e (ACME_WaitAuthorization client uri) =
     (case client_WaitAuthorization e client uri of
        Inl err \<Rightarrow> False
      | Inr authz \<Rightarrow> authz_Status authz = StatusValid)"
| "valid_wait e ev = False"

definition stage_outcome ::
  "env \<Rightarrow> Manager \<Rightarrow> Provisioner \<Rightarrow> acme_Client \<Rightarrow> (acme_Client \<Rightarrow> world \<Rightarrow> error option \<times> world) \<Rightarrow>
   world \<Rightarrow> error option \<Rightarrow> world \<Rightarrow> bool" where
  "stage_outcome e m p client issue w r w' \<longleftrightarrow>
     (\<exists>evs. trace w' = trace w @ evs \<and> disk w' = disk w \<and> r \<noteq> None
         \<and> filter is_issue_event evs = [] \<and> filter (valid_wait e) evs = []
         \<and> provisioning_view m p (filter is_dns_or_accept evs))
   \<or> (\<exists>evs wi tok. issue client (w\<lparr>trace := trace w @ evs\<rparr>) = (r, wi)
         \<and> w' = emit (DNS_Unprovision ''TXT'' (acmeChallengDomainPrefix @ Domain m) tok) wi
         \<and> filter is_issue_event evs = []
         \<and> Provision p ''TXT'' (acmeChallengDomainPrefix @ Domain m) tok = None
         \<and> (\<exists>cl c. filter is_dns_or_accept evs =
               [DNS_Provision ''TXT'' (acmeChallengDomainPrefix @ Domain m) tok,
                ACME_Accept cl c]))"

text \<open>
  What a run of \<^verbatim>\<open>renew\<close> of autocertdns.go from the world \<open>w\<close> shows of the signing
  request: the events \<open>evs\<close> it added, its result \<open>r\<close> and the world \<open>w'\<close> it left.
\<close>

definition signing_view :: "env \<Rightarrow> Manager \<Rightarrow> world \<Rightarrow> event list \<Rightarrow> error option \<Rightarrow> world \<Rightarrow> bool" where
  "signing_view e m w evs r w' \<longleftrightarrow>
     trace w' = trace w @ evs
     \<and> (filter is_csr evs = []
        \<or> (\<exists>k st. filter is_csr evs = [X509_CreateCertificateRequest (Domain m) k]
              \<and> disk w' (filepath_Join e (CacheDir m) (Domain m @ keySuffix)) = Some (Pem st)
              \<and> ECPrivateKey st = Some k))
     \<and> (r = None \<longrightarrow> filter is_csr evs \<noteq> [])
     \<and> (\<forall>c uri a st k.
           ACME_WaitAuthorization c uri \<in> set evs
           \<and> client_WaitAuthorization e c uri = Inr a \<and> authz_Status a = StatusValid
           \<and> disk w' (filepath_Join e (CacheDir m) (Domain m @ keySuffix)) = Some (Pem st)
           \<and> ECPrivateKey st = Some k
         \<longrightarrow> X509_CreateCertificateRequest (Domain m) k \<in> set evs)
     \<and> (\<forall>c csr. ACME_CreateCert c csr \<in> set evs \<longrightarrow>
           (\<exists>st. disk w' (filepath_Join e (CacheDir m) acmeKeyFile) = Some (Pem st)
                \<and> ECPrivateKey st = Some (Key c)))"

section \<open>Concrete inputs\<close>

definition godo_empty :: godo where
  "godo_empty =
     \<lparr>domain_records = (\<lambda>dn. []), next_id = 1, create_outcome = None, list_outcome = None,
      delete_outcome = None, requests = []\<rparr>"

definition clouddns_empty :: clouddns where
  "clouddns_empty =
     \<lparr>rrsets = (\<lambda>project zone. []), change_outcome = None, pages_outcome = None,
      propagation_outcome = None, dns_requests = [], log_lines = []\<rparr>"

definition godop_test :: godop_Client where
  "godop_test = \<lparr>godop_domain = ''test''\<rparr>"

definition gcdnsp_test :: gcdnsp_Client where
  "gcdnsp_test =
     \<lparr>projectID = ''project'', managedZone = ''zone-test'', gcdnsp_domain = ''test'',
      nameservers = [''ns-cloud-b1.googledomains.com:53''],
      propagationWait = 60 * Second, checkDelay = 100000000 * Nanosecond,
      provisionDelay = 10 * Second\<rparr>"

definition clouddns_two_values :: clouddns where
  "clouddns_two_values =
     clouddns_empty\<lparr>rrsets := (\<lambda>project zone.
        if project = ''project'' \<and> zone = ''zone-test''
        then [\<lparr>rr_Type = ''TXT'', rr_Name = ''_acme-challenge.example.test.'',
               rr_Rrdatas = [''other'', ''tok''], rr_Ttl = 1\<rparr>]
        else [])\<rparr>"

text \<open>\<^verbatim>\<open>func AcceptTOS(string) bool\<close>.\<close>

definition AcceptTOS :: "string \<Rightarrow> bool" where
  "AcceptTOS tos = True"

definition LetsEncryptStagingURL :: string where
  "LetsEncryptStagingURL = ''https://acme-staging.api.letsencrypt.org/directory''"

text \<open>
  An environment in which every call succeeds: keys are generated, files are written, the
  authority offers an \<^verbatim>\<open>http-01\<close> and a \<^verbatim>\<open>dns-01\<close> challenge, finds the authorization
  valid and returns a chain of two certificates.
\<close>

definition env_ok :: env where
  "env_ok =
     \<lparr>filepath_Join = (\<lambda>dir name. dir @ ''/'' @ name),
      pemutil_GenerateECKeySet = (\<lambda>n. Inr \<lparr>ECPrivateKey = Some (PrivateKey n)\<rparr>),
      os_MkdirAll = (\<lambda>path. None),
      os_WriteFile = (\<lambda>path. None),
      store_Bytes = (\<lambda>store. None),
      LetsEncryptURL = ''https://acme-v01.api.letsencrypt.org/directory'',
      client_Register = (\<lambda>client contact prompt. None),
      client_Authorize = (\<lambda>client name. Inr
         \<lparr>authz_URI = ''authz/1'', authz_Status = ''pending'',
          authz_Challenges =
            [\<lparr>chal_Type = ''http-01'', chal_URI = ''chal/1'', chal_Token = ''t1''\<rparr>,
             \<lparr>chal_Type = ''dns-01'', chal_URI = ''chal/2'', chal_Token = ''t2''\<rparr>]\<rparr>),
      client_DNS01ChallengeRecord = (\<lambda>client token. Inr (''digest-'' @ token)),
      client_Accept = (\<lambda>client challenge. None),
      client_WaitAuthorization = (\<lambda>client uri. Inr
         \<lparr>authz_URI = uri, authz_Status = ''valid'', authz_Challenges = []\<rparr>),
      x509_CreateCertificateRequest = (\<lambda>name key. Inr (''csr-'' @ name)),
      client_CreateCert = (\<lambda>client csr. Inr ([''leaf'', ''issuer''], ''cert/1''))\<rparr>"

definition provisioner_ok :: Provisioner where
  "provisioner_ok = \<lparr>Provision = (\<lambda>typ name token. None),
                     Unprovision = (\<lambda>typ name token. None)\<rparr>"

definition manager_ok :: Manager where
  "manager_ok =
     \<lparr>DirectoryURL = LetsEncryptStagingURL, Prompt = Some AcceptTOS, CacheDir = ''cache'',
      Email = ''admin@example.test'', Domain = ''example.test'', RenewBefore = 0,
      Provisioner = Some provisioner_ok, Logf_set = True, Errorf_set = False,
      cert = None, nextExpiry = zeroTime\<rparr>"

definition world_empty :: world where
  "world_empty = \<lparr>disk = (\<lambda>path. None), generated = 0, trace = []\<rparr>"

definition client_ok :: "nat \<Rightarrow> acme_Client" where
  "client_ok n = \<lparr>Key = PrivateKey n, client_DirectoryURL = LetsEncryptStagingURL\<rparr>"

text \<open>The events of a renewal in that environment, up to the call of the issuing block.\<close>

definition trace_ok :: "event list" where
  "trace_ok =
     [RW_Lock, FS_LoadFile ''cache/acme_account.key'', FS_GenerateECKeySet,
      FS_MkdirAll ''cache'', FS_WriteFile ''cache/acme_account.key'',
      ACME_Register (client_ok 0) [''mailto:admin@example.test''],
      ACME_Authorize (client_ok 0) ''example.test'',
      ACME_DNS01ChallengeRecord (client_ok 0) ''t2'',
      DNS_Provision ''TXT'' ''_acme-challenge.example.test'' ''digest-t2'',
      ACME_Accept (client_ok 0)
        \<lparr>chal_Type = ''dns-01'', chal_URI = ''chal/2'', chal_Token = ''t2''\<rparr>,
      ACME_WaitAuthorization (client_ok 0) ''authz/1'']"

text \<open>The worlds that the two revisions of \<^verbatim>\<open>renew\<close> leave behind in that environment.\<close>

definition world_after_renew :: world where
  "world_after_renew =
     \<lparr>disk = (\<lambda>path. None)
        (''cache/acme_account.key'' \<mapsto> Pem \<lparr>ECPrivateKey = Some (PrivateKey 0)\<rparr>,
         ''cache/example.test.key'' \<mapsto> Pem \<lparr>ECPrivateKey = Some (PrivateKey 1)\<rparr>),
      generated = 2,
      trace = trace_ok @
        [FS_LoadFile ''cache/example.test.key'', FS_GenerateECKeySet, FS_MkdirAll ''cache'',
         FS_WriteFile ''cache/example.test.key'',
         X509_CreateCertificateRequest ''example.test'' (PrivateKey 1),
         ACME_CreateCert (client_ok 0) ''csr-example.test'',
         CB_Logf ''created certificate: %s'' [S ''cert/1''],
         DNS_Unprovision ''TXT'' ''_acme-challenge.example.test'' ''digest-t2'',
         RW_Unlock]\<rparr>"

definition world_after_renew_part_000 :: world where
  "world_after_renew_part_000 =
     \<lparr>disk = (\<lambda>path. None)
        (''cache/acme_account.key'' \<mapsto> Pem \<lparr>ECPrivateKey = Some (PrivateKey 0)\<rparr>),
      generated = 1,
      trace =
        [RW_Lock, FS_LoadFile ''cache/acme_account.key'', FS_GenerateECKeySet,
         FS_MkdirAll ''cache'', FS_Bytes, FS_WriteFile ''cache/acme_account.key''] @
        drop 5 trace_ok @
        [X509_CreateCertificateRequest ''example.test'' (PrivateKey 0),
         ACME_CreateCert (client_ok 0) ''csr-example.test'',
         CB_Logf ''created certificate: %s'' [S ''cert/1''],
         DNS_Unprovision ''TXT'' ''_acme-challenge.example.test'' ''digest-t2'',
         RW_Unlock]\<rparr>"

definition godo_two :: godo where
  "godo_two =
     godo_empty\<lparr>domain_records := (\<lambda>dn.
        if dn = ''test''
        then [\<lparr>rec_ID = 1, rec_Type = ''TXT'', rec_Name = ''_acme-challenge.example'',
               rec_Data = ''tok''\<rparr>,
              \<lparr>rec_ID = 2, rec_Type = ''TXT'', rec_Name = ''_acme-challenge.example'',
               rec_Data = ''other''\<rparr>]
        else []), next_id := 3\<rparr>"

text \<open>
  A Manager whose certificate expires ten days after \<open>now0\<close>, with a renewal window of five
  days; \<open>nextExpiry\<close> holds the expiration date, as the comment on the field says.
\<close>

definition now0 :: int where
  "now0 = 1793404800 * Second"

definition manager_10_days :: Manager where
  "manager_10_days =
     manager_ok\<lparr>RenewBefore := 5 * Day,
       cert := Some \<lparr>Certificate = [''leaf'', ''issuer''], Leaf_NotAfter = now0 + 10 * Day\<rparr>,
       nextExpiry := now0 + 10 * Day\<rparr>"

text \<open>A Manager whose domain is the name of the account key file without its suffix.\<close>

definition manager_acme_account :: Manager where
  "manager_acme_account = manager_ok\<lparr>Domain := ''acme_account''\<rparr>"

section \<open>Strings\<close>

lemma HasSuffix_take:
  "HasSuffix name (CHR ''.'' # d) \<Longrightarrow>
   take (length name - Suc (length d)) name = TrimSuffix name (CHR ''.'' # d)"
  by (simp add: TrimSuffix_def)

section \<open>The provisioners\<close>

text \<open>
  C10. For both provisioners, a call of Provision or Unprovision with a record type other
  than TXT, with a name that does not end in a dot followed by the client's domain, or with
  nothing left of the name once that suffix is removed, returns an error and leaves the
  DNS service as it was: no request was sent, no record was created or deleted.
\<close>

theorem validation_errors_issue_no_request:
  assumes "typ \<noteq> ''TXT'' \<or> \<not> HasSuffix name (''.'' @ d) \<or> TrimSuffix name (''.'' @ d) = []"
    and "godop_domain c = d" and "gcdnsp_domain g = d"
  shows "(\<exists>err. godop_Provision c typ name token api = (Some err, api))
       \<and> (\<exists>err. godop_Unprovision c typ name token api = (Some err, api))
       \<and> (\<exists>err. gcdnsp_Provision g typ name token svc = (Some err, svc))
       \<and> (\<exists>err. gcdnsp_Unprovision g typ name token svc = (Some err, svc))"
  using assms
  by (auto simp: godop_Provision_def godop_Unprovision_def gcdnsp_Provision_def
      gcdnsp_Unprovision_def allowedRecordType_def HasSuffix_take Let_def)

theorem validation_errors_issue_no_request_witness:
  "(\<exists>err. godop_Provision godop_test ''TXT'' ''.test'' ''tok'' godo_empty = (Some err, godo_empty))
 \<and> (\<exists>err. godop_Unprovision godop_test ''TXT'' ''.test'' ''tok'' godo_empty = (Some err, godo_empty))
 \<and> (\<exists>err. gcdnsp_Provision gcdnsp_test ''TXT'' ''.test'' ''tok'' clouddns_empty
             = (Some err, clouddns_empty))
 \<and> (\<exists>err. gcdnsp_Unprovision gcdnsp_test ''TXT'' ''.test'' ''tok'' clouddns_empty
             = (Some err, clouddns_empty))"
  using validation_errors_issue_no_request [of "''TXT''" "''.test''" "''test''" godop_test
      gcdnsp_test "''tok''" godo_empty clouddns_empty]
  by (simp add: TrimSuffix_def HasSuffix_def godop_test_def gcdnsp_test_def)

text \<open>
  C5, as the code has it. Provision accepts a name only when the type is TXT, the name ends
  in a dot followed by the client's domain, and something is left of the name once that
  suffix is removed. godop creates the record under what is left; gcdnsp looks at what is
  left only to see that it is not empty and creates the record set under the whole name
  followed by a dot. With the name \<^verbatim>\<open>_acme-challenge.example.test\<close> and the domain \<^verbatim>\<open>test\<close>
  the godop record is named \<^verbatim>\<open>_acme-challenge.example\<close>; with the domain \<^verbatim>\<open>other.test\<close>
  both provisioners answer \<^verbatim>\<open>invalid domain\<close> and send nothing.
\<close>

theorem Provision_record_name:
  "(fst (godop_Provision c typ f token api) = None \<longrightarrow>
       typ = ''TXT'' \<and> HasSuffix f (''.'' @ godop_domain c)
     \<and> TrimSuffix f (''.'' @ godop_domain c) \<noteq> []
     \<and> requests (snd (godop_Provision c typ f token api)) =
         requests api @ [CreateRecord (godop_domain c)
           \<lparr>req_Type = ''TXT'', req_Name = TrimSuffix f (''.'' @ godop_domain c),
            req_Data = token\<rparr>])
 \<and> (fst (gcdnsp_Provision g typ f token svc) = None \<longrightarrow>
       typ = ''TXT'' \<and> HasSuffix f (''.'' @ gcdnsp_domain g)
     \<and> TrimSuffix f (''.'' @ gcdnsp_domain g) \<noteq> []
     \<and> dns_requests (snd (gcdnsp_Provision g typ f token svc)) =
         dns_requests svc @ [ChangesCreate (projectID g) (managedZone g)
           \<lparr>Additions = [\<lparr>rr_Type = ''TXT'', rr_Name = f @ ''.'', rr_Rrdatas = [token],
                          rr_Ttl = 1\<rparr>], Deletions = []\<rparr>,
           Exchange (nameservers g) (f @ ''.'')])
 \<and> requests (snd (godop_Provision \<lparr>godop_domain = ''test''\<rparr> ''TXT''
        ''_acme-challenge.example.test'' token api)) =
       requests api @ [CreateRecord ''test''
         \<lparr>req_Type = ''TXT'', req_Name = ''_acme-challenge.example'', req_Data = token\<rparr>]
 \<and> godop_Provision \<lparr>godop_domain = ''other.test''\<rparr> ''TXT''
        ''_acme-challenge.example.test'' token api = (Some (New ''invalid domain''), api)
 \<and> gcdnsp_Provision (g\<lparr>gcdnsp_domain := ''other.test''\<rparr>) ''TXT''
        ''_acme-challenge.example.test'' token svc = (Some (New ''invalid domain''), svc)"
  by (auto simp: godop_Provision_def gcdnsp_Provision_def allowedRecordType_def HasSuffix_take
      Let_def Domains_CreateRecord_def Changes_Create_def eg_Wait_def c_logf_def c_errf_def
      HasSuffix_def
      split: option.splits prod.splits if_splits)

theorem Provision_record_name_witness:
  "fst (godop_Provision godop_test ''TXT'' ''_acme-challenge.example.test'' ''tok'' godo_empty)
     = None
 \<and> requests (snd (godop_Provision godop_test ''TXT'' ''_acme-challenge.example.test'' ''tok''
        godo_empty)) =
       [CreateRecord ''test''
          \<lparr>req_Type = ''TXT'', req_Name = ''_acme-challenge.example'', req_Data = ''tok''\<rparr>]
 \<and> fst (gcdnsp_Provision gcdnsp_test ''TXT'' ''_acme-challenge.example.test'' ''tok''
        clouddns_empty) = None
 \<and> dns_requests (snd (gcdnsp_Provision gcdnsp_test ''TXT'' ''_acme-challenge.example.test''
        ''tok'' clouddns_empty)) =
       [ChangesCreate ''project'' ''zone-test''
          \<lparr>Additions = [\<lparr>rr_Type = ''TXT'', rr_Name = ''_acme-challenge.example.test.'',
                         rr_Rrdatas = [''tok''], rr_Ttl = 1\<rparr>], Deletions = []\<rparr>,
        Exchange [''ns-cloud-b1.googledomains.com:53''] ''_acme-challenge.example.test.'']"
  using Provision_record_name [of godop_test "''TXT''" "''_acme-challenge.example.test''"
      "''tok''" godo_empty gcdnsp_test clouddns_empty]
  by (simp add: godop_Provision_def gcdnsp_Provision_def godop_test_def gcdnsp_test_def
      godo_empty_def clouddns_empty_def allowedRecordType_def HasSuffix_def TrimSuffix_def
      Let_def Domains_CreateRecord_def Changes_Create_def eg_Wait_def c_logf_def)

text \<open>
  C5 as stated fails for gcdnsp: with the domain \<^verbatim>\<open>test\<close> the call is accepted and the one
  record set it creates is named \<^verbatim>\<open>_acme-challenge.example.test.\<close>, not
  \<^verbatim>\<open>_acme-challenge.example\<close>.
\<close>

theorem gcdnsp_Provision_record_name_counterexample:
  "fst (gcdnsp_Provision gcdnsp_test ''TXT'' ''_acme-challenge.example.test'' ''tok''
          clouddns_empty) = None
 \<and> map rr_Name (rrsets (snd (gcdnsp_Provision gcdnsp_test ''TXT''
          ''_acme-challenge.example.test'' ''tok'' clouddns_empty)) ''project'' ''zone-test'')
     = [''_acme-challenge.example.test.'']
 \<and> map rr_Name (rrsets (snd (gcdnsp_Provision gcdnsp_test ''TXT''
          ''_acme-challenge.example.test'' ''tok'' clouddns_empty)) ''project'' ''zone-test'')
     \<noteq> [''_acme-challenge.example'']"
  by (simp add: gcdnsp_Provision_def gcdnsp_test_def clouddns_empty_def allowedRecordType_def
      HasSuffix_def TrimSuffix_def Let_def Changes_Create_def eg_Wait_def c_logf_def)

lemma godop_delete_first_find:
  "godop_delete_first c n tok recs api =
     (case find (\<lambda>r. rec_Name r = n \<and> rec_Type r = ''TXT'' \<and> rec_Data r = tok) recs of
        None \<Rightarrow> (Some (New ''record not deleted''), api)
      | Some r \<Rightarrow> Domains_DeleteRecord api (godop_domain c) (rec_ID r))"
  by (induction recs) (auto split: prod.splits option.splits)

lemma find_Some_set: "find P xs = Some x \<Longrightarrow> x \<in> set xs \<and> P x"
  by (induction xs) (auto split: if_splits)

lemma distinct_map_eq: "distinct (map f xs) \<Longrightarrow> x \<in> set xs \<Longrightarrow> y \<in> set xs \<Longrightarrow> f x = f y \<Longrightarrow> x = y"
  by (meson distinct_map inj_onD)

lemma godop_removed_matches:
  assumes "distinct (map rec_ID (domain_records api (godop_domain c)))"
    and "r \<in> set (domain_records api (godop_domain c))"
    and "r \<notin> set (domain_records (snd (godop_Unprovision c typ f token api)) (godop_domain c))"
  shows "rec_Name r = TrimSuffix f (''.'' @ godop_domain c) \<and> rec_Type r = ''TXT'' \<and> rec_Data r = token"
  using assms
  by (auto simp: godop_Unprovision_def Let_def HasSuffix_take Domains_Records_def
      godop_delete_first_find Domains_DeleteRecord_def
      split: if_splits option.splits prod.splits
      dest!: find_Some_set dest: distinct_map_eq)

lemma godop_not_found:
  assumes "typ = ''TXT''" "HasSuffix f (''.'' @ godop_domain c)"
    "TrimSuffix f (''.'' @ godop_domain c) \<noteq> []" "list_outcome api = None"
    "\<forall>r \<in> set (domain_records api (godop_domain c)).
       \<not> (rec_Name r = TrimSuffix f (''.'' @ godop_domain c) \<and> rec_Type r = ''TXT'' \<and> rec_Data r = token)"
  shows "godop_Unprovision c typ f token api =
     (Some (New ''record not deleted''), api\<lparr>requests := requests api @ [Records (godop_domain c)]\<rparr>)"
  using assms
  by (auto simp: godop_Unprovision_def Let_def HasSuffix_take Domains_Records_def
      godop_delete_first_find find_None_iff
      split: option.splits dest!: find_Some_set)

lemma gcdnsp_removed_matches:
  assumes "r \<in> set (rrsets svc p z)"
    and "r \<notin> set (rrsets (snd (gcdnsp_Unprovision g typ f token svc)) p z)"
  shows "rr_Name r = f @ ''.'' \<and> rr_Type r = ''TXT'' \<and> contains (rr_Rrdatas r) token"
  using assms
  by (auto simp: gcdnsp_Unprovision_def Let_def Rrsets_List_Pages_def Changes_Create_def
      c_errf_def c_logf_def allowedRecordType_def
      split: if_splits option.splits prod.splits)

lemma gcdnsp_not_found:
  assumes "typ = ''TXT''" "HasSuffix f (''.'' @ gcdnsp_domain g)"
    "TrimSuffix f (''.'' @ gcdnsp_domain g) \<noteq> []" "pages_outcome svc = None"
    "\<forall>r \<in> set (rrsets svc (projectID g) (managedZone g)).
       \<not> (rr_Name r = f @ ''.'' \<and> rr_Type r = ''TXT'' \<and> contains (rr_Rrdatas r) token)"
  shows "gcdnsp_Unprovision g typ f token svc =
     (None, svc\<lparr>dns_requests := dns_requests svc @ [RrsetsList (projectID g) (managedZone g)],
               log_lines := log_lines svc @
                 [Errf ''could not find record (type: %s, name: %s, token: %s)''
                    [S typ, S (f @ ''.''), S token]]\<rparr>)"
  using assms
  by (auto simp: gcdnsp_Unprovision_def Let_def Rrsets_List_Pages_def
      c_errf_def c_logf_def allowedRecordType_def filter_empty_conv)

text \<open>
  C6, as the code has it. godop removes only a record of its domain whose name, type and data
  are the name without the domain suffix, TXT and the token (record ids being distinct), and
  answers \<^verbatim>\<open>record not deleted\<close> when no listed record matches. gcdnsp removes only record
  sets whose name is the whole name followed by a dot, whose type is TXT and one of whose
  values is the token once its double quotes are stripped; when no set matches it reports
  through \<^verbatim>\<open>errf\<close>, sends no change and returns \<^verbatim>\<open>nil\<close>. What Unprovision returns is
  dropped by \<^verbatim>\<open>renew\<close>: the renewal does not depend on it.
\<close>

theorem Unprovision_removes_matching_only:
  "(distinct (map rec_ID (domain_records api (godop_domain c)))
      \<and> r \<in> set (domain_records api (godop_domain c))
      \<and> r \<notin> set (domain_records (snd (godop_Unprovision c typ f token api)) (godop_domain c))
    \<longrightarrow> rec_Name r = TrimSuffix f (''.'' @ godop_domain c) \<and> rec_Type r = ''TXT''
        \<and> rec_Data r = token)
 \<and> (typ = ''TXT'' \<and> HasSuffix f (''.'' @ godop_domain c)
      \<and> TrimSuffix f (''.'' @ godop_domain c) \<noteq> [] \<and> list_outcome api = None
      \<and> (\<forall>r \<in> set (domain_records api (godop_domain c)).
            \<not> (rec_Name r = TrimSuffix f (''.'' @ godop_domain c) \<and> rec_Type r = ''TXT''
               \<and> rec_Data r = token))
    \<longrightarrow> godop_Unprovision c typ f token api =
          (Some (New ''record not deleted''),
           api\<lparr>requests := requests api @ [Records (godop_domain c)]\<rparr>))
 \<and> (rs \<in> set (rrsets svc project zone)
      \<and> rs \<notin> set (rrsets (snd (gcdnsp_Unprovision g typ f token svc)) project zone)
    \<longrightarrow> rr_Name rs = f @ ''.'' \<and> rr_Type rs = ''TXT'' \<and> contains (rr_Rrdatas rs) token)
 \<and> (typ = ''TXT'' \<and> HasSuffix f (''.'' @ gcdnsp_domain g)
      \<and> TrimSuffix f (''.'' @ gcdnsp_domain g) \<noteq> [] \<and> pages_outcome svc = None
      \<and> (\<forall>r \<in> set (rrsets svc (projectID g) (managedZone g)).
            \<not> (rr_Name r = f @ ''.'' \<and> rr_Type r = ''TXT'' \<and> contains (rr_Rrdatas r) token))
    \<longrightarrow> gcdnsp_Unprovision g typ f token svc =
          (None,
           svc\<lparr>dns_requests := dns_requests svc @ [RrsetsList (projectID g) (managedZone g)],
               log_lines := log_lines svc @
                 [Errf ''could not find record (type: %s, name: %s, token: %s)''
                    [S typ, S (f @ ''.''), S token]]\<rparr>))
 \<and> renew_challenge e m (p\<lparr>Unprovision := u\<rparr>) client authz challenge tok issue w =
     renew_challenge e m p client authz challenge tok issue w"
proof (intro conjI impI)
  assume "distinct (map rec_ID (domain_records api (godop_domain c)))
      \<and> r \<in> set (domain_records api (godop_domain c))
      \<and> r \<notin> set (domain_records (snd (godop_Unprovision c typ f token api)) (godop_domain c))"
  then have "rec_Name r = TrimSuffix f (''.'' @ godop_domain c) \<and> rec_Type r = ''TXT''
        \<and> rec_Data r = token"
    using godop_removed_matches by blast
  then show "rec_Name r = TrimSuffix f (''.'' @ godop_domain c)" "rec_Type r = ''TXT''"
    "rec_Data r = token" by simp_all
next
  assume "typ = ''TXT'' \<and> HasSuffix f (''.'' @ godop_domain c)
      \<and> TrimSuffix f (''.'' @ godop_domain c) \<noteq> [] \<and> list_outcome api = None
      \<and> (\<forall>r \<in> set (domain_records api (godop_domain c)).
            \<not> (rec_Name r = TrimSuffix f (''.'' @ godop_domain c) \<and> rec_Type r = ''TXT''
               \<and> rec_Data r = token))"
  then show "godop_Unprovision c typ f token api =
          (Some (New ''record not deleted''),
           api\<lparr>requests := requests api @ [Records (godop_domain c)]\<rparr>)"
    using godop_not_found by blast
next
  assume "rs \<in> set (rrsets svc project zone)
      \<and> rs \<notin> set (rrsets (snd (gcdnsp_Unprovision g typ f token svc)) project zone)"
  then have "rr_Name rs = f @ ''.'' \<and> rr_Type rs = ''TXT'' \<and> contains (rr_Rrdatas rs) token"
    using gcdnsp_removed_matches by blast
  then show "rr_Name rs = f @ ''.''" "rr_Type rs = ''TXT''" "contains (rr_Rrdatas rs) token"
    by simp_all
next
  assume "typ = ''TXT'' \<and> HasSuffix f (''.'' @ gcdnsp_domain g)
      \<and> TrimSuffix f (''.'' @ gcdnsp_domain g) \<noteq> [] \<and> pages_outcome svc = None
      \<and> (\<forall>r \<in> set (rrsets svc (projectID g) (managedZone g)).
            \<not> (rr_Name r = f @ ''.'' \<and> rr_Type r = ''TXT'' \<and> contains (rr_Rrdatas r) token))"
  then show "gcdnsp_Unprovision g typ f token svc =
          (None,
           svc\<lparr>dns_requests := dns_requests svc @ [RrsetsList (projectID g) (managedZone g)],
               log_lines := log_lines svc @
                 [Errf ''could not find record (type: %s, name: %s, token: %s)''
                    [S typ, S (f @ ''.''), S token]]\<rparr>)"
    using gcdnsp_not_found by blast
next
  show "renew_challenge e m (p\<lparr>Unprovision := u\<rparr>) client authz challenge tok issue w =
     renew_challenge e m p client authz challenge tok issue w"
    by (simp add: renew_challenge_def)
qed

theorem Unprovision_removes_matching_only_witness:
  "domain_records (snd (godop_Unprovision godop_test ''TXT'' ''_acme-challenge.example.test''
      ''tok'' godo_two)) ''test'' =
     [\<lparr>rec_ID = 2, rec_Type = ''TXT'', rec_Name = ''_acme-challenge.example'',
       rec_Data = ''other''\<rparr>]
 \<and> godop_Unprovision godop_test ''TXT'' ''_acme-challenge.example.test'' ''tok'' godo_empty =
     (Some (New ''record not deleted''), godo_empty\<lparr>requests := [Records ''test'']\<rparr>)
 \<and> fst (gcdnsp_Unprovision gcdnsp_test ''TXT'' ''_acme-challenge.example.test'' ''tok''
      clouddns_empty) = None"
  using Unprovision_removes_matching_only [of godo_two godop_test
      "\<lparr>rec_ID = 1, rec_Type = ''TXT'', rec_Name = ''_acme-challenge.example'',
        rec_Data = ''tok''\<rparr>" "''TXT''" "''_acme-challenge.example.test''" "''tok''"
      _ clouddns_empty "''project''" "''zone-test''" gcdnsp_test]
  by (simp add: godop_Unprovision_def gcdnsp_Unprovision_def godop_test_def gcdnsp_test_def
      godo_two_def godo_empty_def clouddns_empty_def allowedRecordType_def HasSuffix_def
      TrimSuffix_def Let_def Domains_Records_def Domains_DeleteRecord_def
      Rrsets_List_Pages_def c_errf_def)

text \<open>
  C6 as stated fails for gcdnsp. With no matching record the call returns \<^verbatim>\<open>nil\<close>, as it
  does on success. And a record set of the name and type that holds the token and another
  value is removed whole, the other value with it.
\<close>

theorem gcdnsp_Unprovision_counterexample:
  "rrsets clouddns_empty ''project'' ''zone-test'' = []
 \<and> fst (gcdnsp_Unprovision gcdnsp_test ''TXT'' ''_acme-challenge.example.test'' ''tok''
      clouddns_empty) = None
 \<and> map rr_Rrdatas (rrsets clouddns_two_values ''project'' ''zone-test'') = [[''other'', ''tok'']]
 \<and> fst (gcdnsp_Unprovision gcdnsp_test ''TXT'' ''_acme-challenge.example.test'' ''tok''
      clouddns_two_values) = None
 \<and> rrsets (snd (gcdnsp_Unprovision gcdnsp_test ''TXT'' ''_acme-challenge.example.test'' ''tok''
      clouddns_two_values)) ''project'' ''zone-test'' = []"
  by (simp add: gcdnsp_Unprovision_def gcdnsp_test_def clouddns_two_values_def
      clouddns_empty_def allowedRecordType_def HasSuffix_def TrimSuffix_def TrimFunc_def
      Let_def Rrsets_List_Pages_def Changes_Create_def c_errf_def c_logf_def)

section \<open>The Manager: effects of the building blocks\<close>

lemma trace_emit [simp]: "trace (emit ev w) = trace w @ [ev]"
  by (simp add: emit_def)

lemma disk_emit [simp]: "disk (emit ev w) = disk w"
  by (simp add: emit_def)

lemma return_errf_effect:
  "return_errf m s v w = (r, w') \<Longrightarrow>
   \<exists>evs. trace w' = trace w @ evs \<and> disk w' = disk w \<and> (\<forall>ev \<in> set evs. is_lock_or_log ev)
     \<and> r = Some (FmtErrorf s v)"
  by (auto simp: return_errf_def m_errf_def m_log_def Let_def emit_def split: if_splits)

lemma lock_or_log_views:
  "\<forall>ev \<in> set evs. is_lock_or_log ev \<Longrightarrow>
   filter is_dns_or_accept evs = [] \<and> filter is_issue_event evs = []
     \<and> filter (valid_wait e) evs = []"
proof (induction evs)
  case Nil
  then show ?case by simp
next
  case (Cons ev evs)
  then show ?case by (cases ev) auto
qed

lemma stage_outcome_stop:
  assumes "return_errf m s v (w\<lparr>trace := trace w @ pre\<rparr>) = (r, w')"
    and "filter is_issue_event pre = []"
    and "provisioning_view m p (filter is_dns_or_accept pre)"
    and "filter (valid_wait e) pre = []"
  shows "stage_outcome e m p client issue w r w'"
proof -
  from assms(1) obtain evs where "trace w' = trace w @ pre @ evs" "disk w' = disk w"
    "\<forall>ev \<in> set evs. is_lock_or_log ev" "r \<noteq> None"
    by (auto dest!: return_errf_effect)
  with assms(2,3,4) lock_or_log_views[of evs e] show ?thesis
    unfolding stage_outcome_def
    by (intro disjI1 exI[of _ "pre @ evs"]) simp
qed

lemma stage_outcome_prefix:
  assumes "stage_outcome e m p client issue (w\<lparr>trace := trace w @ pre\<rparr>) r w'"
    and "filter is_issue_event pre = []"
    and "filter is_dns_or_accept pre = []"
    and "filter (valid_wait e) pre = []"
  shows "stage_outcome e m p client issue w r w'"
  using assms(1) [unfolded stage_outcome_def]
proof (elim disjE exE conjE)
  fix evs
  assume "trace w' = trace (w\<lparr>trace := trace w @ pre\<rparr>) @ evs"
    "disk w' = disk (w\<lparr>trace := trace w @ pre\<rparr>)" "r \<noteq> None"
    "filter is_issue_event evs = []" "provisioning_view m p (filter is_dns_or_accept evs)"
    "filter (valid_wait e) evs = []"
  with assms(2,3,4) show "?thesis"
    unfolding stage_outcome_def by (intro disjI1 exI[of _ "pre @ evs"]) simp
next
  fix evs wi tok cl c
  assume "issue client (w\<lparr>trace := trace w @ pre, trace := trace (w\<lparr>trace := trace w @ pre\<rparr>) @ evs\<rparr>) = (r, wi)"
    "w' = emit (DNS_Unprovision ''TXT'' (acmeChallengDomainPrefix @ Domain m) tok) wi"
    "filter is_issue_event evs = []"
    "Provision p ''TXT'' (acmeChallengDomainPrefix @ Domain m) tok = None"
    "filter is_dns_or_accept evs =
       [DNS_Provision ''TXT'' (acmeChallengDomainPrefix @ Domain m) tok, ACME_Accept cl c]"
  with assms(2,3) show ?thesis
    unfolding stage_outcome_def
    by (intro disjI2 exI[of _ "pre @ evs"] exI[of _ wi] exI[of _ tok]) auto
qed


lemma provisioning_view_Nil [simp]: "provisioning_view m p []"
  by (simp add: provisioning_view_def)

lemma renew_challenge_outcome:
  assumes "renew_challenge e m p client authz ch tok issue w = (r, w')"
  shows "stage_outcome e m p client issue w r w'"
proof (cases "Provision p ''TXT'' (acmeChallengDomainPrefix @ Domain m) tok")
  case (Some err)
  with assms show ?thesis
    by (auto simp: renew_challenge_def Let_def emit_def provisioning_view_def
        intro!: stage_outcome_stop)
next
  case None
  note prov = None
  let ?U = "DNS_Unprovision ''TXT'' (acmeChallengDomainPrefix @ Domain m) tok"
  let ?P = "DNS_Provision ''TXT'' (acmeChallengDomainPrefix @ Domain m) tok"
  have stopped: "stage_outcome e m p client issue w r w'"
    if "return_errf m s v (w\<lparr>trace := trace w @ pre\<rparr>) = (r, w1)"
      "w' = w1\<lparr>trace := trace w1 @ [?U]\<rparr>"
      "filter (valid_wait e) pre = []"
      "filter is_issue_event pre = []"
      "\<exists>cl c. filter is_dns_or_accept pre = [?P, ACME_Accept cl c]"
    for s v pre w1
  proof -
    from that(1) obtain evs where evs: "trace w1 = trace w @ pre @ evs" "disk w1 = disk w"
      "\<forall>ev \<in> set evs. is_lock_or_log ev" "r \<noteq> None"
      by (auto dest!: return_errf_effect)
    from that(5) obtain cl c where v: "filter is_dns_or_accept pre = [?P, ACME_Accept cl c]"
      by blast
    show ?thesis
      unfolding stage_outcome_def
      using evs that(2,3,4) v prov lock_or_log_views[of evs e]
      by (intro disjI1 exI[of _ "pre @ evs @ [?U]"]) (auto simp: provisioning_view_def)
  qed
  show ?thesis
  proof (cases "client_Accept e client ch")
    case (Some err)
    with assms prov obtain s v w1 where a:
      "return_errf m s v (w\<lparr>trace := trace w @ [?P, ACME_Accept client ch]\<rparr>) = (r, w1)"
      "w' = w1\<lparr>trace := trace w1 @ [?U]\<rparr>"
      by (auto simp: renew_challenge_def Let_def emit_def split: prod.splits)
    have nv: "filter (valid_wait e) [?P, ACME_Accept client ch] = []"
      by simp
    from a nv show ?thesis
      by (rule stopped) auto
  next
    case None
    note acc = None
    let ?pre = "[?P, ACME_Accept client ch, ACME_WaitAuthorization client (authz_URI authz)]"
    show ?thesis
    proof (cases "client_WaitAuthorization e client (authz_URI authz)")
      case (Inl err)
      with assms prov acc obtain s v w1 where a:
        "return_errf m s v (w\<lparr>trace := trace w @ ?pre\<rparr>) = (r, w1)"
        "w' = w1\<lparr>trace := trace w1 @ [?U]\<rparr>"
        by (auto simp: renew_challenge_def Let_def emit_def split: prod.splits)
      have nv: "filter (valid_wait e) ?pre = []"
        using Inl by simp
      from a nv show ?thesis
        by (rule stopped) auto
    next
      case (Inr authz1)
      show ?thesis
      proof (cases "authz_Status authz1 = StatusValid")
        case False
        with assms prov acc Inr obtain s v w1 where a:
          "return_errf m s v (w\<lparr>trace := trace w @ ?pre\<rparr>) = (r, w1)"
          "w' = w1\<lparr>trace := trace w1 @ [?U]\<rparr>"
          by (auto simp: renew_challenge_def Let_def emit_def split: prod.splits)
        have nv: "filter (valid_wait e) ?pre = []"
          using Inr False by simp
        from a nv show ?thesis
          by (rule stopped) auto
      next
        case True
        obtain ri wi where i: "issue client (w\<lparr>trace := trace w @ ?pre\<rparr>) = (ri, wi)"
          by (cases "issue client (w\<lparr>trace := trace w @ ?pre\<rparr>)") auto
        with assms prov acc Inr True have "r = ri" and "w' = emit ?U wi"
          by (auto simp: renew_challenge_def Let_def emit_def)
        with i prov show ?thesis
          unfolding stage_outcome_def
          by (intro disjI2 exI[of _ ?pre] exI[of _ wi] exI[of _ tok]) auto
      qed
    qed
  qed
qed

lemma renew_authorize_outcome:
  assumes "renew_authorize e m p client issue w = (r, w')"
  shows "stage_outcome e m p client issue w r w'"
proof (cases "client_Authorize e client (Domain m)")
  case (Inl err)
  with assms show ?thesis
    by (auto simp: renew_authorize_def Let_def emit_def intro!: stage_outcome_stop)
next
  case (Inr authz)
  note authz = Inr
  show ?thesis
  proof (cases "find (\<lambda>c. chal_Type c = ''dns-01'') (authz_Challenges authz)")
    case None
    with assms authz show ?thesis
      by (auto simp: renew_authorize_def Let_def emit_def intro!: stage_outcome_stop)
  next
    case (Some challenge)
    note ch = Some
    let ?pre = "[ACME_Authorize client (Domain m),
                 ACME_DNS01ChallengeRecord client (chal_Token challenge)]"
    show ?thesis
    proof (cases "client_DNS01ChallengeRecord e client (chal_Token challenge)")
      case (Inl err)
      with assms authz ch show ?thesis
        by (auto simp: renew_authorize_def Let_def emit_def
            intro!: stage_outcome_stop[where pre = ?pre])
    next
      case (Inr tok)
      with assms authz ch
      have "renew_challenge e m p client authz challenge tok issue
              (w\<lparr>trace := trace w @ ?pre\<rparr>) = (r, w')"
        by (simp add: renew_authorize_def Let_def emit_def)
      then have "stage_outcome e m p client issue (w\<lparr>trace := trace w @ ?pre\<rparr>) r w'"
        by (rule renew_challenge_outcome)
      then show ?thesis
        by (rule stage_outcome_prefix) simp_all
    qed
  qed
qed

lemma renew_register_outcome:
  assumes "renew_register e m prompt p key issue w = (r, w')"
  shows "stage_outcome e m p
           \<lparr>Key = key,
            client_DirectoryURL = (if DirectoryURL m = [] then LetsEncryptURL e else DirectoryURL m)\<rparr>
           issue w r w'"
proof -
  let ?client = "\<lparr>Key = key,
      client_DirectoryURL = (if DirectoryURL m = [] then LetsEncryptURL e else DirectoryURL m)\<rparr>"
  let ?pre = "[ACME_Register ?client [''mailto:'' @ Email m]]"
  let ?reg = "client_Register e ?client [''mailto:'' @ Email m] prompt"
  show ?thesis
  proof (cases "already_registered ?reg")
    case False
    with assms show ?thesis
      by (auto simp: renew_register_def Let_def emit_def already_registered_def
          split: option.splits intro!: stage_outcome_stop[where pre = ?pre])
  next
    case True
    with assms have "renew_authorize e m p ?client issue (w\<lparr>trace := trace w @ ?pre\<rparr>) = (r, w')"
      by (auto simp: renew_register_def Let_def emit_def already_registered_def
          split: option.splits)
    then have "stage_outcome e m p ?client issue (w\<lparr>trace := trace w @ ?pre\<rparr>) r w'"
      by (rule renew_authorize_outcome)
    then show ?thesis
      by (rule stage_outcome_prefix) simp_all
  qed
qed

lemma trace_m_log [simp]:
  "trace (m_log m s v w) = trace w @ (if Logf_set m then [CB_Logf s v] else [])"
  by (simp add: m_log_def)

lemma disk_m_log [simp]: "disk (m_log m s v w) = disk w"
  by (simp add: m_log_def)

lemma cachedKey_effect:
  "cachedKey e m f w = (r, w') \<Longrightarrow>
   \<exists>evs. trace w' = trace w @ evs \<and> (\<forall>ev \<in> set evs. is_fs ev)
     \<and> (\<forall>p. p \<noteq> filepath_Join e (CacheDir m) f \<longrightarrow> disk w' p = disk w p)
     \<and> (\<forall>st. disk w (filepath_Join e (CacheDir m) f) = Some (Pem st) \<longrightarrow> disk w' = disk w)
     \<and> (\<forall>k. r = Inr k \<longrightarrow>
           (\<exists>st. disk w' (filepath_Join e (CacheDir m) f) = Some (Pem st)
                \<and> ECPrivateKey st = Some k))"
  by (auto simp: cachedKey_def Let_def LoadFile_def
      split: sum.splits option.splits if_splits disk_file.splits)



lemma lock_or_log_facts:
  assumes "\<forall>ev \<in> set evs. is_lock_or_log ev"
  shows "filter is_dns_or_accept evs = [] \<and> filter is_issue_event evs = []
     \<and> (\<forall>d k. X509_CreateCertificateRequest d k \<notin> set evs)
     \<and> (\<forall>c csr. ACME_CreateCert c csr \<notin> set evs)"
  using assms lock_or_log_views[OF assms, of e] by auto






section \<open>The Manager: one renewal in which every call succeeds\<close>

lemmas fixture_defs = env_ok_def manager_ok_def provisioner_ok_def world_empty_def client_ok_def
  trace_ok_def LetsEncryptStagingURL_def AcceptTOS_def

lemmas run_defs = renew_def renew_part_000_def renew_register_def renew_authorize_def
  renew_challenge_def renew_issue_def renew_issue_part_000_def cachedKey_def
  cachedAccountPEM_def return_errf_def m_errf_def m_log_def emit_def LoadFile_def IsNotExist_def
  already_registered_def acmeKeyFile_def keySuffix_def acmeChallengDomainPrefix_def
  StatusValid_def

lemma renew_ok_run:
  "renew env_ok manager_ok world_empty = (None, manager_ok, world_after_renew)"
  by (simp add: run_defs fixture_defs world_after_renew_def Let_def)

lemma renew_part_000_ok_run:
  "renew_part_000 env_ok manager_ok world_empty = (None, manager_ok, world_after_renew_part_000)"
  by (simp add: run_defs fixture_defs world_after_renew_part_000_def Let_def)

section \<open>The Manager: the claims\<close>



lemma config_error_run:
  assumes "Email m = [] \<or> Prompt m = None \<or> Provisioner m = None"
    and "rn = renew \<or> rn = renew_part_000"
  shows "\<exists>s. rn e m w =
     (Some (FmtErrorf s []), m,
      w\<lparr>trace := trace w @ [RW_Lock] @
         (if Errorf_set m then [CB_Errorf s [V []]]
          else if Logf_set m then [CB_Logf ''ERROR: %v'' [E (FmtErrorf s [])]] else [])
         @ [RW_Unlock]\<rparr>)"
  using assms
  by (auto simp: renew_def renew_part_000_def Let_def return_errf_def m_errf_def m_log_def
      emit_def split: option.splits)

text \<open>
  C8. In both revisions, when Email is empty or Prompt or Provisioner is unset, \<^verbatim>\<open>renew\<close>
  returns an error, hands the Manager back unchanged, and leaves the world as it was but
  for the trace, which grew by the lock and a logging callback only: no file was read or
  written, no key generated, no call made to the authority or to the provisioner.
\<close>

theorem config_error_before_any_activity:
  assumes "Email m = [] \<or> Prompt m = None \<or> Provisioner m = None"
    and "rn = renew \<or> rn = renew_part_000"
  shows "\<exists>err evs. rn e m w = (Some err, m, w\<lparr>trace := trace w @ evs\<rparr>)
           \<and> (\<forall>ev \<in> set evs. is_lock_or_log ev)"
proof -
  from config_error_run[OF assms, of e w] obtain s where
    "rn e m w =
     (Some (FmtErrorf s []), m,
      w\<lparr>trace := trace w @ [RW_Lock] @
         (if Errorf_set m then [CB_Errorf s [V []]]
          else if Logf_set m then [CB_Logf ''ERROR: %v'' [E (FmtErrorf s [])]] else [])
         @ [RW_Unlock]\<rparr>)" by blast
  then show ?thesis
    by (intro exI[of _ "FmtErrorf s []"] exI[of _ "[RW_Lock] @
         (if Errorf_set m then [CB_Errorf s [V []]]
          else if Logf_set m then [CB_Logf ''ERROR: %v'' [E (FmtErrorf s [])]] else [])
         @ [RW_Unlock]"]) auto
qed

theorem config_error_before_any_activity_witness:
  "Email (manager_ok\<lparr>Email := []\<rparr>) = []
 \<and> renew env_ok (manager_ok\<lparr>Email := []\<rparr>) world_empty =
     (Some (FmtErrorf ''must provide Email'' []), manager_ok\<lparr>Email := []\<rparr>,
      world_empty\<lparr>trace := [RW_Lock,
         CB_Logf ''ERROR: %v'' [E (FmtErrorf ''must provide Email'' [])], RW_Unlock]\<rparr>)"
  using config_error_before_any_activity [of "manager_ok\<lparr>Email := []\<rparr>" renew env_ok
      world_empty]
  by (simp add: run_defs fixture_defs Let_def)

lemma no_issue_events:
  assumes "filter is_issue_event evs = []"
  shows "X509_CreateCertificateRequest d k \<notin> set evs \<and> ACME_CreateCert c csr \<notin> set evs"
  using assms by (auto simp: filter_empty_conv)

lemma cachedKey_key_on_disk:
  assumes "cachedKey e m f w = (r, w')"
    and "disk w' (filepath_Join e (CacheDir m) f) = Some (Pem st)"
    and "ECPrivateKey st = Some k"
  shows "r = Inr k"
  using assms
  by (auto simp: cachedKey_def Let_def LoadFile_def
      split: sum.splits option.splits if_splits disk_file.splits)

lemma csr_is_issue_event: "is_csr ev \<Longrightarrow> is_issue_event ev"
  by (cases ev) auto

lemma no_issue_no_csr: "filter is_issue_event evs = [] \<Longrightarrow> filter is_csr evs = []"
  by (auto simp: filter_empty_conv dest: csr_is_issue_event)

lemma fs_no_csr: "\<forall>ev \<in> set evs. is_fs ev \<Longrightarrow> filter is_csr evs = [] \<and> filter (valid_wait e) evs = []"
proof (induction evs)
  case Nil
  then show ?case by simp
next
  case (Cons ev evs)
  then show ?case by (cases ev) auto
qed

lemma lock_or_log_no_csr: "\<forall>ev \<in> set evs. is_lock_or_log ev \<Longrightarrow> filter is_csr evs = []"
proof (induction evs)
  case Nil
  then show ?case by simp
next
  case (Cons ev evs)
  then show ?case by (cases ev) auto
qed

lemma lock_or_log_all:
  assumes "\<forall>ev \<in> set evs. is_lock_or_log ev"
  shows "filter is_csr evs = [] \<and> filter (valid_wait e) evs = []
     \<and> (\<forall>c csr. ACME_CreateCert c csr \<notin> set evs)"
  using lock_or_log_no_csr[OF assms] lock_or_log_facts[OF assms]
    lock_or_log_views[OF assms, of e] by simp

lemma no_valid_wait:
  assumes "filter (valid_wait e) evs = []"
    and "ACME_WaitAuthorization c uri \<in> set evs"
    and "client_WaitAuthorization e c uri = Inr a"
  shows "authz_Status a \<noteq> StatusValid"
proof -
  from assms(1,2) have "\<not> valid_wait e (ACME_WaitAuthorization c uri)"
    by (auto simp: filter_empty_conv)
  with assms(3) show ?thesis by simp
qed

lemma in_filter_csr:
  "X509_CreateCertificateRequest d k \<in> set evs \<longleftrightarrow>
   X509_CreateCertificateRequest d k \<in> set (filter is_csr evs)"
  by simp

lemma renew_issue_signing:
  assumes "renew_issue e m client w = (r, w')"
  shows "\<exists>evs. trace w' = trace w @ evs
     \<and> (\<forall>p. p \<noteq> filepath_Join e (CacheDir m) (Domain m @ keySuffix) \<longrightarrow> disk w' p = disk w p)
     \<and> (\<forall>st. disk w (filepath_Join e (CacheDir m) (Domain m @ keySuffix)) = Some (Pem st)
            \<longrightarrow> disk w' = disk w)
     \<and> (filter is_csr evs = []
        \<or> (\<exists>k st. filter is_csr evs = [X509_CreateCertificateRequest (Domain m) k]
              \<and> disk w' (filepath_Join e (CacheDir m) (Domain m @ keySuffix)) = Some (Pem st)
              \<and> ECPrivateKey st = Some k))
     \<and> (r = None \<longrightarrow> filter is_csr evs \<noteq> [])
     \<and> (\<forall>st k. disk w' (filepath_Join e (CacheDir m) (Domain m @ keySuffix)) = Some (Pem st)
              \<and> ECPrivateKey st = Some k
            \<longrightarrow> X509_CreateCertificateRequest (Domain m) k \<in> set evs)
     \<and> (\<forall>c csr. ACME_CreateCert c csr \<in> set evs \<longrightarrow> c = client)
     \<and> filter (valid_wait e) evs = []"
proof -
  let ?dp = "filepath_Join e (CacheDir m) (Domain m @ keySuffix)"
  obtain rk w9 where ck: "cachedKey e m (Domain m @ keySuffix) w = (rk, w9)"
    by (cases "cachedKey e m (Domain m @ keySuffix) w") auto
  from cachedKey_effect[OF ck] obtain fs where fs:
    "trace w9 = trace w @ fs" "\<forall>ev \<in> set fs. is_fs ev"
    "\<forall>p. p \<noteq> ?dp \<longrightarrow> disk w9 p = disk w p"
    "\<forall>st. disk w ?dp = Some (Pem st) \<longrightarrow> disk w9 = disk w"
    "\<forall>k. rk = Inr k \<longrightarrow> (\<exists>st. disk w9 ?dp = Some (Pem st) \<and> ECPrivateKey st = Some k)"
    by blast
  from fs(2) have nofs: "\<And>c csr. ACME_CreateCert c csr \<notin> set fs" by auto
  note fsv = fs_no_csr[OF fs(2), of e]
  from assms ck obtain rest where rest: "trace w' = trace w9 @ rest" "disk w' = disk w9"
    "filter is_csr rest = (case rk of Inl err \<Rightarrow> [] | Inr k \<Rightarrow> [X509_CreateCertificateRequest (Domain m) k])"
    "r = None \<longrightarrow> (\<exists>k. rk = Inr k)"
    "\<forall>c csr. ACME_CreateCert c csr \<in> set rest \<longrightarrow> c = client"
    "filter (valid_wait e) rest = []"
    by (auto simp: renew_issue_def Let_def split: sum.splits prod.splits
        dest!: return_errf_effect lock_or_log_all[where e = e])
  let ?evs = "fs @ rest"
  have t: "trace w' = trace w @ ?evs"
    using fs(1) rest(1) by simp
  have d1: "\<forall>p. p \<noteq> ?dp \<longrightarrow> disk w' p = disk w p"
    using fs(3) rest(2) by simp
  have d2: "\<forall>st. disk w ?dp = Some (Pem st) \<longrightarrow> disk w' = disk w"
    using fs(4) rest(2) by simp
  have csr: "filter is_csr ?evs =
      (case rk of Inl err \<Rightarrow> [] | Inr k \<Rightarrow> [X509_CreateCertificateRequest (Domain m) k])"
    using fsv rest(3) by simp
  have c1: "filter is_csr ?evs = []
        \<or> (\<exists>k st. filter is_csr ?evs = [X509_CreateCertificateRequest (Domain m) k]
              \<and> disk w' ?dp = Some (Pem st) \<and> ECPrivateKey st = Some k)"
  proof (cases rk)
    case (Inl err)
    with csr show ?thesis by simp
  next
    case (Inr k)
    with fs(5) obtain st where "disk w9 ?dp = Some (Pem st)" "ECPrivateKey st = Some k"
      by blast
    with csr Inr rest(2) show ?thesis by auto
  qed
  have c2: "r = None \<longrightarrow> filter is_csr ?evs \<noteq> []"
    using rest(4) csr by auto
  have c3: "\<forall>st k. disk w' ?dp = Some (Pem st) \<and> ECPrivateKey st = Some k
            \<longrightarrow> X509_CreateCertificateRequest (Domain m) k \<in> set ?evs"
  proof (intro allI impI)
    fix st k
    assume "disk w' ?dp = Some (Pem st) \<and> ECPrivateKey st = Some k"
    with rest(2) have "rk = Inr k"
      using cachedKey_key_on_disk[OF ck, of st k] by simp
    with csr have "filter is_csr ?evs = [X509_CreateCertificateRequest (Domain m) k]"
      by simp
    then have "X509_CreateCertificateRequest (Domain m) k \<in> set (filter is_csr ?evs)"
      by simp
    then show "X509_CreateCertificateRequest (Domain m) k \<in> set ?evs"
      by (simp del: filter_append)
  qed
  have c4: "\<forall>c csr. ACME_CreateCert c csr \<in> set ?evs \<longrightarrow> c = client"
    using nofs rest(5) by auto
  have c5: "filter (valid_wait e) ?evs = []"
    using fsv rest(6) by simp
  show ?thesis
    by (intro exI[of _ ?evs] conjI t d1 d2 c1 c2 c3 c4 c5)
qed

lemma fs_no_CreateCert:
  "\<forall>ev \<in> set evs. is_fs ev \<Longrightarrow> ACME_CreateCert c csr \<notin> set evs"
  by auto

lemma signing_view_stopped:
  assumes t: "trace w' = trace w @ evs" and r: "r \<noteq> None"
    and c: "filter is_csr evs = []" and v: "filter (valid_wait e) evs = []"
    and n: "\<forall>c csr. ACME_CreateCert c csr \<notin> set evs"
  shows "signing_view e m w evs r w'"
  unfolding signing_view_def
proof (intro conjI allI impI)
  show "trace w' = trace w @ evs" by (rule t)
  show "filter is_csr evs = []
        \<or> (\<exists>k st. filter is_csr evs = [X509_CreateCertificateRequest (Domain m) k]
              \<and> disk w' (filepath_Join e (CacheDir m) (Domain m @ keySuffix)) = Some (Pem st)
              \<and> ECPrivateKey st = Some k)"
    using c by simp
  show "filter is_csr evs \<noteq> []" if "r = None"
    using that r by simp
next
  fix c uri a st k
  assume "ACME_WaitAuthorization c uri \<in> set evs
           \<and> client_WaitAuthorization e c uri = Inr a \<and> authz_Status a = StatusValid
           \<and> disk w' (filepath_Join e (CacheDir m) (Domain m @ keySuffix)) = Some (Pem st)
           \<and> ECPrivateKey st = Some k"
  with no_valid_wait[OF v, of c uri a]
  show "X509_CreateCertificateRequest (Domain m) k \<in> set evs" by simp
next
  fix c csr
  assume "ACME_CreateCert c csr \<in> set evs"
  with n show "\<exists>st. disk w' (filepath_Join e (CacheDir m) acmeKeyFile) = Some (Pem st)
                \<and> ECPrivateKey st = Some (Key c)" by simp
qed

lemma renew_signing_view:
  "\<exists>evs. signing_view e m w evs (fst (renew e m w)) (snd (snd (renew e m w)))"
proof (cases "Email m = [] \<or> Prompt m = None \<or> Provisioner m = None")
  case True
  let ?logs = "\<lambda>s. if Errorf_set m then [CB_Errorf s [V []]]
          else if Logf_set m then [CB_Logf ''ERROR: %v'' [E (FmtErrorf s [])]] else []"
  from config_error_run[OF True disjI1[OF refl], of e w] obtain s where run:
    "renew e m w = (Some (FmtErrorf s []), m,
       w\<lparr>trace := trace w @ [RW_Lock] @ ?logs s @ [RW_Unlock]\<rparr>)"
    by blast
  have "signing_view e m w ([RW_Lock] @ ?logs s @ [RW_Unlock])
          (fst (renew e m w)) (snd (snd (renew e m w)))"
    by (rule signing_view_stopped) (simp_all add: run)
  then show ?thesis by blast
next
  case False
  let ?dp = "filepath_Join e (CacheDir m) (Domain m @ keySuffix)"
  let ?ap = "filepath_Join e (CacheDir m) acmeKeyFile"
  let ?X = "\<lambda>k. X509_CreateCertificateRequest (Domain m) k"
  from False obtain prompt p where mp:
    "Email m \<noteq> []" "Prompt m = Some prompt" "Provisioner m = Some p"
    by auto
  obtain rk w2 where ck: "cachedKey e m acmeKeyFile (emit RW_Lock w) = (rk, w2)"
    by (cases "cachedKey e m acmeKeyFile (emit RW_Lock w)") auto
  from cachedKey_effect[OF ck] obtain fs where fs:
    "trace w2 = trace w @ RW_Lock # fs" "\<forall>ev \<in> set fs. is_fs ev"
    "\<forall>k. rk = Inr k \<longrightarrow> (\<exists>st. disk w2 ?ap = Some (Pem st) \<and> ECPrivateKey st = Some k)"
    by auto
  note fsv = fs_no_csr[OF fs(2), of e]
  have fsc: "\<And>c csr. ACME_CreateCert c csr \<notin> set fs"
    using fs(2) by auto
  show ?thesis
  proof (cases rk)
    case (Inl err)
    obtain rr w3 where re:
      "return_errf m ''could not load %s: %v'' [S acmeKeyFile, E err] w2 = (rr, w3)"
      by (cases "return_errf m ''could not load %s: %v'' [S acmeKeyFile, E err] w2") auto
    with mp ck Inl have res: "fst (renew e m w) = rr"
      "snd (snd (renew e m w)) = emit RW_Unlock w3"
      by (simp_all add: renew_def Let_def)
    from return_errf_effect[OF re] obtain logs where logs:
      "trace w3 = trace w2 @ logs" "\<forall>ev \<in> set logs. is_lock_or_log ev" "rr \<noteq> None"
      by auto
    note lv = lock_or_log_all[OF logs(2), of e]
    have "signing_view e m w (RW_Lock # fs @ logs @ [RW_Unlock])
            (fst (renew e m w)) (snd (snd (renew e m w)))"
      by (rule signing_view_stopped) (use res logs(1,3) fs(1) fsv fsc lv in simp_all)
    then show ?thesis by blast
  next
    case (Inr key)
    with fs(3) obtain sta where sta: "disk w2 ?ap = Some (Pem sta)" "ECPrivateKey sta = Some key"
      by blast
    let ?client = "\<lparr>Key = key, client_DirectoryURL =
               if DirectoryURL m = [] then LetsEncryptURL e else DirectoryURL m\<rparr>"
    obtain r w3 where reg:
      "renew_register e m prompt p key (renew_issue e m) w2 = (r, w3)"
      by (cases "renew_register e m prompt p key (renew_issue e m) w2") auto
    from mp ck Inr reg have res: "snd (snd (renew e m w)) = emit RW_Unlock w3"
      "fst (renew e m w) = r"
      by (simp_all add: renew_def Let_def)
    from renew_register_outcome[OF reg, unfolded stage_outcome_def]
    have "\<exists>evs. signing_view e m w evs r (emit RW_Unlock w3)"
    proof (elim disjE exE conjE)
      fix evs
      assume a: "trace w3 = trace w2 @ evs" "r \<noteq> None" "filter is_issue_event evs = []"
        "filter (valid_wait e) evs = []"
      note no = no_issue_events[OF a(3)] no_issue_no_csr[OF a(3)]
      have "signing_view e m w (RW_Lock # fs @ evs @ [RW_Unlock]) r (emit RW_Unlock w3)"
        by (rule signing_view_stopped) (use a(1,2,4) fs(1) fsv fsc no in simp_all)
      then show ?thesis by blast
    next
      fix evs wi tok cl c
      let ?U = "DNS_Unprovision ''TXT'' (acmeChallengDomainPrefix @ Domain m) tok"
      assume a: "renew_issue e m ?client (w2\<lparr>trace := trace w2 @ evs\<rparr>) = (r, wi)"
        "w3 = emit ?U wi" "filter is_issue_event evs = []"
      note no = no_issue_events[OF a(3)] no_issue_no_csr[OF a(3)]
      from renew_issue_signing[OF a(1)] obtain evsi where i:
        "trace wi = trace w2 @ evs @ evsi"
        "\<forall>p. p \<noteq> ?dp \<longrightarrow> disk wi p = disk w2 p"
        "\<forall>st. disk w2 ?dp = Some (Pem st) \<longrightarrow> disk wi = disk w2"
        "filter is_csr evsi = []
           \<or> (\<exists>k st. filter is_csr evsi = [?X k] \<and> disk wi ?dp = Some (Pem st)
                 \<and> ECPrivateKey st = Some k)"
        "r = None \<longrightarrow> filter is_csr evsi \<noteq> []"
        "\<forall>st k. disk wi ?dp = Some (Pem st) \<and> ECPrivateKey st = Some k \<longrightarrow> ?X k \<in> set evsi"
        "\<forall>c csr. ACME_CreateCert c csr \<in> set evsi \<longrightarrow> c = ?client"
        by auto
      let ?evs = "RW_Lock # fs @ evs @ evsi @ [?U, RW_Unlock]"
      have acct: "disk wi ?ap = Some (Pem sta)"
      proof (cases "?ap = ?dp")
        case True
        with sta(1) i(3) show ?thesis by simp
      next
        case False
        with sta(1) i(2) show ?thesis by simp
      qed
      have d: "disk (emit RW_Unlock w3) = disk wi"
        using a(2) by simp
      have t: "trace (emit RW_Unlock w3) = trace w @ ?evs"
        using a(2) i(1) fs(1) by simp
      have fc: "filter is_csr ?evs = filter is_csr evsi"
        using fsv no(2) by simp
      have q1: "filter is_csr ?evs = []
        \<or> (\<exists>k st. filter is_csr ?evs = [?X k] \<and> disk (emit RW_Unlock w3) ?dp = Some (Pem st)
            \<and> ECPrivateKey st = Some k)"
        unfolding fc d using i(4) .
      have q2: "r = None \<longrightarrow> filter is_csr ?evs \<noteq> []"
        unfolding fc using i(5) .
      have q3: "\<forall>c uri a st k.
         ACME_WaitAuthorization c uri \<in> set ?evs
         \<and> client_WaitAuthorization e c uri = Inr a \<and> authz_Status a = StatusValid
         \<and> disk (emit RW_Unlock w3) ?dp = Some (Pem st) \<and> ECPrivateKey st = Some k
       \<longrightarrow> ?X k \<in> set ?evs"
      proof (intro allI impI)
        fix c uri a st k
        assume "ACME_WaitAuthorization c uri \<in> set ?evs
         \<and> client_WaitAuthorization e c uri = Inr a \<and> authz_Status a = StatusValid
         \<and> disk (emit RW_Unlock w3) ?dp = Some (Pem st) \<and> ECPrivateKey st = Some k"
        then have "disk wi ?dp = Some (Pem st) \<and> ECPrivateKey st = Some k"
          unfolding d by simp
        with i(6) have "?X k \<in> set evsi" by blast
        then show "?X k \<in> set ?evs" by simp
      qed
      have q4: "\<forall>c csr. ACME_CreateCert c csr \<in> set ?evs \<longrightarrow>
         (\<exists>st. disk (emit RW_Unlock w3) ?ap = Some (Pem st) \<and> ECPrivateKey st = Some (Key c))"
      proof (intro allI impI)
        fix c csr
        assume "ACME_CreateCert c csr \<in> set ?evs"
        with fsc no(1) have "ACME_CreateCert c csr \<in> set evsi" by auto
        with i(7) have "c = ?client" by blast
        with acct sta(2) show
          "\<exists>st. disk (emit RW_Unlock w3) ?ap = Some (Pem st) \<and> ECPrivateKey st = Some (Key c)"
          unfolding d by simp
      qed
      have "signing_view e m w ?evs r (emit RW_Unlock w3)"
        unfolding signing_view_def by (intro conjI t q1 q2 q3 q4)
      then show ?thesis by blast
    qed
    with res show ?thesis by simp
  qed
qed

text \<open>
  C7, as the code has it, for \<^verbatim>\<open>renew\<close> of autocertdns.go. A run makes at most one signing
  request; it is for the Manager's domain and made with the key that the file
  \<^verbatim>\<open><domain>.key\<close> of the cache directory holds when \<^verbatim>\<open>renew\<close> returns. A run that returns
  \<^verbatim>\<open>nil\<close> has made it, and so has every run in which the authority answered
  WaitAuthorization with status valid and which leaves a key in that file. The key of the
  ACME client that asks for the certificate is the one the file \<^verbatim>\<open>acme_account.key\<close> holds.
  The signing key is the account key exactly when the two files hold the same key; the two
  file names are the same when the domain is the string \<^verbatim>\<open>acme_account\<close>.
\<close>

theorem signing_request_uses_domain_key:
  "\<exists>evs. trace (snd (snd (renew e m w))) = trace w @ evs
     \<and> (filter is_csr evs = []
        \<or> (\<exists>k st. filter is_csr evs = [X509_CreateCertificateRequest (Domain m) k]
              \<and> disk (snd (snd (renew e m w)))
                   (filepath_Join e (CacheDir m) (Domain m @ keySuffix)) = Some (Pem st)
              \<and> ECPrivateKey st = Some k))
     \<and> (fst (renew e m w) = None \<longrightarrow> filter is_csr evs \<noteq> [])
     \<and> (\<forall>c uri a st k.
           ACME_WaitAuthorization c uri \<in> set evs
           \<and> client_WaitAuthorization e c uri = Inr a \<and> authz_Status a = StatusValid
           \<and> disk (snd (snd (renew e m w)))
                (filepath_Join e (CacheDir m) (Domain m @ keySuffix)) = Some (Pem st)
           \<and> ECPrivateKey st = Some k
         \<longrightarrow> X509_CreateCertificateRequest (Domain m) k \<in> set evs)
     \<and> (\<forall>c csr. ACME_CreateCert c csr \<in> set evs \<longrightarrow>
           (\<exists>st. disk (snd (snd (renew e m w)))
                   (filepath_Join e (CacheDir m) acmeKeyFile) = Some (Pem st)
                \<and> ECPrivateKey st = Some (Key c)))
     \<and> (\<forall>d k c csr sa sd.
           X509_CreateCertificateRequest d k \<in> set evs \<and> ACME_CreateCert c csr \<in> set evs
           \<and> disk (snd (snd (renew e m w)))
                (filepath_Join e (CacheDir m) acmeKeyFile) = Some (Pem sa)
           \<and> disk (snd (snd (renew e m w)))
                (filepath_Join e (CacheDir m) (Domain m @ keySuffix)) = Some (Pem sd)
         \<longrightarrow> (k = Key c \<longleftrightarrow> ECPrivateKey sd = ECPrivateKey sa))
     \<and> (Domain m @ keySuffix = acmeKeyFile \<longleftrightarrow> Domain m = ''acme_account'')"
proof -
  let ?dp = "filepath_Join e (CacheDir m) (Domain m @ keySuffix)"
  let ?ap = "filepath_Join e (CacheDir m) acmeKeyFile"
  let ?w' = "snd (snd (renew e m w))"
  from renew_signing_view[of e m w] obtain evs where
    sv: "signing_view e m w evs (fst (renew e m w)) ?w'" ..
  note q = sv[unfolded signing_view_def]
  note t = q[THEN conjunct1]
  note q1 = q[THEN conjunct2, THEN conjunct1]
  note q2 = q[THEN conjunct2, THEN conjunct2, THEN conjunct1]
  note q3 = q[THEN conjunct2, THEN conjunct2, THEN conjunct2, THEN conjunct1]
  note q4 = q[THEN conjunct2, THEN conjunct2, THEN conjunct2, THEN conjunct2]
  have names: "Domain m @ keySuffix = acmeKeyFile \<longleftrightarrow> Domain m = ''acme_account''"
    by (auto simp: keySuffix_def acmeKeyFile_def)
  have dist: "\<forall>d k c csr sa sd.
           X509_CreateCertificateRequest d k \<in> set evs \<and> ACME_CreateCert c csr \<in> set evs
           \<and> disk ?w' ?ap = Some (Pem sa) \<and> disk ?w' ?dp = Some (Pem sd)
         \<longrightarrow> (k = Key c \<longleftrightarrow> ECPrivateKey sd = ECPrivateKey sa)"
  proof (intro allI impI)
    fix d k c csr sa sd
    assume a: "X509_CreateCertificateRequest d k \<in> set evs \<and> ACME_CreateCert c csr \<in> set evs
           \<and> disk ?w' ?ap = Some (Pem sa) \<and> disk ?w' ?dp = Some (Pem sd)"
    then have mem: "X509_CreateCertificateRequest d k \<in> set (filter is_csr evs)" by simp
    then have "filter is_csr evs \<noteq> []" by (metis empty_iff empty_set)
    with q1 obtain k' st' where k':
      "filter is_csr evs = [X509_CreateCertificateRequest (Domain m) k']"
      "disk ?w' ?dp = Some (Pem st')" "ECPrivateKey st' = Some k'"
      by blast
    from mem have "X509_CreateCertificateRequest d k
        \<in> set [X509_CreateCertificateRequest (Domain m) k']"
      unfolding k'(1) .
    then have "k = k'" by simp
    with k'(2,3) a have sd: "ECPrivateKey sd = Some k" by simp
    from a q4 obtain st where "disk ?w' ?ap = Some (Pem st)" "ECPrivateKey st = Some (Key c)"
      by blast
    with a have sa: "ECPrivateKey sa = Some (Key c)" by simp
    from sd sa show "k = Key c \<longleftrightarrow> ECPrivateKey sd = ECPrivateKey sa" by auto
  qed
  show ?thesis
    by (intro exI[of _ evs] conjI t q1 q2 q3 q4 dist names)
qed

theorem signing_request_uses_domain_key_witness:
  "fst (renew env_ok manager_ok world_empty) = None
 \<and> valid_wait env_ok (ACME_WaitAuthorization (client_ok 0) ''authz/1'')
 \<and> filter is_csr (trace (snd (snd (renew env_ok manager_ok world_empty)))) =
     [X509_CreateCertificateRequest ''example.test'' (PrivateKey 1)]
 \<and> disk (snd (snd (renew env_ok manager_ok world_empty))) ''cache/example.test.key''
     = Some (Pem \<lparr>ECPrivateKey = Some (PrivateKey 1)\<rparr>)
 \<and> ACME_CreateCert (client_ok 0) ''csr-example.test''
     \<in> set (trace (snd (snd (renew env_ok manager_ok world_empty))))
 \<and> disk (snd (snd (renew env_ok manager_ok world_empty))) ''cache/acme_account.key''
     = Some (Pem \<lparr>ECPrivateKey = Some (PrivateKey 0)\<rparr>)
 \<and> PrivateKey 1 \<noteq> Key (client_ok 0)"
proof -
  have v: "valid_wait env_ok (ACME_WaitAuthorization (client_ok 0) ''authz/1'')"
    by (simp add: env_ok_def StatusValid_def)
  show ?thesis
    using signing_request_uses_domain_key [of env_ok manager_ok world_empty] v
    by (simp add: renew_ok_run world_after_renew_def trace_ok_def client_ok_def)
qed

text \<open>
  C7 as stated fails: with the domain \<^verbatim>\<open>acme_account\<close> the domain key file is the account
  key file, and \<^verbatim>\<open>renew\<close> returns \<^verbatim>\<open>nil\<close> having signed the request with the account key.
\<close>

theorem signing_request_account_key_counterexample:
  "fst (renew env_ok manager_acme_account world_empty) = None
 \<and> filter is_csr (trace (snd (snd (renew env_ok manager_acme_account world_empty)))) =
     [X509_CreateCertificateRequest ''acme_account'' (Key (client_ok 0))]
 \<and> ACME_CreateCert (client_ok 0) ''csr-acme_account''
     \<in> set (trace (snd (snd (renew env_ok manager_acme_account world_empty))))
 \<and> Domain manager_acme_account @ keySuffix = acmeKeyFile"
  by (simp add: run_defs fixture_defs manager_acme_account_def Let_def)

text \<open>
  The earlier revision (src/unnamed/part_000) makes the signing request with the account
  key and never touches \<^verbatim>\<open><domain>.key\<close>.
\<close>

lemma renew_part_000_signs_with_account_key:
  "X509_CreateCertificateRequest ''example.test'' (Key (client_ok 0))
     \<in> set (trace (snd (snd (renew_part_000 env_ok manager_ok world_empty))))
 \<and> disk (snd (snd (renew_part_000 env_ok manager_ok world_empty))) ''cache/example.test.key''
     = None"
  by (simp add: renew_part_000_ok_run world_after_renew_part_000_def trace_ok_def client_ok_def)

text \<open>
  C1 is not what the code does. In the run in which the authorization is valid and the
  authority returns a certificate chain, both revisions return \<^verbatim>\<open>nil\<close> with the Manager as
  it was (no certificate, \<open>nextExpiry\<close> the zero time) and with no certificate file in the
  cache directory; the only files written are key files. In every run the Manager comes
  back unchanged.
\<close>

theorem renew_success_stores_no_certificate:
  "renew env_ok manager_ok world_empty = (None, manager_ok, world_after_renew)
 \<and> renew_part_000 env_ok manager_ok world_empty = (None, manager_ok, world_after_renew_part_000)
 \<and> cert manager_ok = None \<and> nextExpiry manager_ok = zeroTime
 \<and> disk world_after_renew
       (filepath_Join env_ok (CacheDir manager_ok) (Domain manager_ok @ certSuffix)) = None
 \<and> disk world_after_renew_part_000
       (filepath_Join env_ok (CacheDir manager_ok) (Domain manager_ok @ certSuffix)) = None
 \<and> filter (\<lambda>ev. case ev of FS_WriteFile path \<Rightarrow> True | _ \<Rightarrow> False) (trace world_after_renew)
     = [FS_WriteFile ''cache/acme_account.key'', FS_WriteFile ''cache/example.test.key'']
 \<and> fst (snd (renew e m w)) = m \<and> fst (snd (renew_part_000 e m w)) = m"
proof -
  have "fst (snd (renew e m w)) = m" "fst (snd (renew_part_000 e m w)) = m"
    by (simp_all add: renew_def renew_part_000_def Let_def split: prod.splits)
  moreover have "filter (\<lambda>ev. case ev of FS_WriteFile path \<Rightarrow> True | _ \<Rightarrow> False)
      (trace world_after_renew)
     = [FS_WriteFile ''cache/acme_account.key'', FS_WriteFile ''cache/example.test.key'']"
    by (simp add: world_after_renew_def trace_ok_def)
  moreover have "disk world_after_renew
       (filepath_Join env_ok (CacheDir manager_ok) (Domain manager_ok @ certSuffix)) = None"
    "disk world_after_renew_part_000
       (filepath_Join env_ok (CacheDir manager_ok) (Domain manager_ok @ certSuffix)) = None"
    by (simp_all add: world_after_renew_def world_after_renew_part_000_def env_ok_def
        manager_ok_def certSuffix_def)
  moreover have "cert manager_ok = None" "nextExpiry manager_ok = zeroTime"
    by (simp_all add: manager_ok_def)
  ultimately show ?thesis
    using renew_ok_run renew_part_000_ok_run by simp
qed

text \<open>
  C2 is not what the code does. \<^verbatim>\<open>afterRenew\<close> waits until \<open>nextExpiry\<close> and never reads
  \<open>RenewBefore\<close>: for a certificate that expires in ten days, with a window of five days or
  with the window left at zero, the timer is set to ten days, where the claim has five. With
  \<open>nextExpiry\<close> at the zero time, the only value the code gives it, the delay is zero.
\<close>

theorem afterRenew_ignores_renewal_window:
  "fst (afterRenew manager_10_days now0 w) = 10 * Day
 \<and> fst (afterRenew (manager_10_days\<lparr>RenewBefore := 0\<rparr>) now0 w) = 10 * Day
 \<and> max 0 (nextExpiry manager_10_days - RenewBefore manager_10_days - now0) = 5 * Day
 \<and> fst (afterRenew (m\<lparr>RenewBefore := d\<rparr>) now w) = fst (afterRenew m now w)
 \<and> fst (afterRenew manager_ok now0 w) = 0"
  by (simp add: afterRenew_def manager_10_days_def manager_ok_def now0_def Sub_def
      time_After_def minDuration_def maxDuration_def zeroTime_def Day_def Hour_def Second_def
      Nanosecond_def Let_def)

text \<open>
  C3, as the code has it. \<^verbatim>\<open>GetCertificate\<close> takes and releases the read lock and does
  nothing else; it returns the certificate slot of the Manager and never an error. With no
  certificate obtained it returns a \<^verbatim>\<open>nil\<close> certificate and a \<^verbatim>\<open>nil\<close> error.
\<close>

theorem GetCertificate_returns_slot:
  "GetCertificate m hello w = ((cert m, None), w\<lparr>trace := trace w @ [RW_RLock, RW_RUnlock]\<rparr>)"
  by (simp add: GetCertificate_def emit_def)

text \<open>
  C3 as stated fails: a Manager that never obtained a certificate gets no error.
\<close>

theorem GetCertificate_no_error_counterexample:
  "cert manager_ok = None
 \<and> fst (GetCertificate manager_ok \<lparr>ServerName = ''example.test''\<rparr> world_empty) = (None, None)"
  by (simp add: GetCertificate_def manager_ok_def)

end
